theory Spec2Isabelle
  imports Complex_Main "HOL-Library.Log_Nat"
begin

section \<open>Data model of the order and payment subsystem\<close>

text \<open>
  The embedding follows the order controller (createOrder, verifyPayment, cancelOrder,
  validateCoupon) and the payment service (createRazorpayOrder, verifyRazorpaySignature,
  fetchPaymentDetails). An amount column is a decimal number, held here as a rational.
  The source converts every amount it reads with \<open>Number(...)\<close> and computes the totals
  in JavaScript numbers, which are IEEE 754 doubles: the functions that compute amounts
  (createOrder, validateCoupon, createRazorpayOrder) round the result of every conversion
  and of every arithmetic operation to the nearest double, and an order row holds the
  numbers as createOrder hands them to \<open>order.create\<close>. The amount gate of verifyPayment
  compares the amount the gateway reports with the stored total as exact numbers. A date
  is its epoch time in milliseconds. Identifiers are strings.
  The database is a record of tables, each table a list of rows; every handler takes the
  database and returns the database it leaves behind together with its answer, the error
  passed to \<open>next(error)\<close> on the left and the JSON response on the right.
\<close>

datatype PaymentMethod = RAZORPAY | COD

datatype PaymentStatus = PAYMENT_PENDING | PAID | FAILED | REFUNDED

datatype OrderStatus =
  PENDING | CONFIRMED | PROCESSING | SHIPPED | DELIVERED | CANCELLED | RETURNED

datatype DiscountType = PERCENTAGE | FIXED

text \<open>
  \<open>AppError message statusCode\<close> is the application error class; \<open>PrismaError code\<close> is a
  known request error of the ORM (P2002 unique constraint, P2025 record not found);
  \<open>Error message\<close> is a plain JavaScript error; \<open>TypeError\<close> is a property read on null.
\<close>

datatype error = AppError string nat | PrismaError string | Error string | TypeError

definition NotFoundError :: "string \<Rightarrow> error" where
  "NotFoundError resource = AppError (resource @ '' not found'') 404"

record Address =
  address_id :: string
  address_userId :: string

record Product =
  product_id :: string
  product_name :: string
  price :: rat
  discountPrice :: "rat option"
  product_stock :: int
  primaryImageUrl :: "string option"

record ProductVariant =
  variant_id :: string
  variant_size :: string
  variant_color :: string
  additionalPrice :: rat
  variant_stock :: int

record Cart =
  cart_id :: string
  cart_userId :: string

record CartItem =
  cartItem_cartId :: string
  cartItem_productId :: string
  cartItem_variantId :: "string option"
  cartItem_quantity :: int

record Coupon =
  coupon_id :: string
  code :: string
  description :: string
  discountType :: DiscountType
  discountValue :: rat
  minPurchase :: rat
  maxDiscount :: "rat option"
  usageLimit :: int
  usedCount :: int
  validFrom :: int
  validUntil :: int
  isActive :: bool

record OrderItem =
  productId :: string
  variantId :: "string option"
  productName :: string
  productImage :: string
  item_size :: string
  item_color :: string
  item_price :: rat
  quantity :: int
  item_subtotal :: rat

record Order =
  order_id :: string
  orderNumber :: string
  userId :: string
  addressId :: string
  subtotal :: rat
  discount :: rat
  shippingCharge :: rat
  tax :: rat
  total :: rat
  paymentMethod :: PaymentMethod
  paymentStatus :: PaymentStatus
  orderStatus :: OrderStatus
  order_notes :: "string option"
  razorpayOrderId :: "string option"
  razorpayPaymentId :: "string option"
  razorpaySignature :: "string option"
  createdAt :: int
  items :: "OrderItem list"

record DB =
  addresses :: "Address list"
  carts :: "Cart list"
  cartItems :: "CartItem list"
  products :: "Product list"
  variants :: "ProductVariant list"
  coupons :: "Coupon list"
  orders :: "Order list"

record RazorpayOrderResult =
  rzp_id :: string
  rzp_amount :: int
  rzp_currency :: string
  rzp_receipt :: string

text \<open>
  What a handler reads from outside the database: the clock, the order number that
  generateOrderNumber draws (date plus four random characters), the row id the database
  assigns to the new order, the payment gateway (orders.create answers with the remote
  order or throws an error with a message; payments.fetch answers with the amount in
  paise or throws), the configured key secret and the HMAC-SHA256 hex digest of the
  crypto library, taken as a function of the secret and the message. A call reads the
  clock once: \<open>Date.now()\<close>, \<open>new Date()\<close> and the creation time that the database gives
  a new row are the same reading.
\<close>

record Env =
  now :: int
  generatedOrderNumber :: string
  generatedOrderId :: string
  razorpay_orders_create :: "int \<Rightarrow> string \<Rightarrow> string + RazorpayOrderResult"
  razorpay_payments_fetch :: "string \<Rightarrow> rat option"
  RAZORPAY_KEY_SECRET :: "string option"
  createHmac_sha256_hex :: "string \<Rightarrow> string \<Rightarrow> string"

record CreateOrderRequest =
  req_user :: "string option"
  req_addressId :: string
  req_paymentMethod :: PaymentMethod
  req_couponCode :: "string option"
  req_notes :: "string option"

datatype CreateOrderResponse =
  Created Order "RazorpayOrderResult option"
  | ExistingPending Order

record VerifyPaymentRequest =
  vp_user :: "string option"
  razorpay_order_id :: string
  razorpay_payment_id :: string
  razorpay_signature :: string

text \<open>
  The body of validate-coupon is not validated by a schema: \<open>vc_couponCode\<close> is None when
  the field is missing or not a string, \<open>vc_subtotal\<close> is None when the field is missing.
\<close>

record ValidateCouponRequest =
  vc_couponCode :: "string option"
  vc_subtotal :: "rat option"

record CouponPreview =
  preview_code :: string
  preview_description :: string
  preview_discountType :: DiscountType
  preview_discountValue :: rat
  preview_discount :: int
  preview_minPurchase :: rat
  preview_maxDiscount :: "rat option"

section \<open>JavaScript helpers\<close>

text \<open>
  A finite JavaScript number is a rational of the form m * 2^k with a significand m of at
  most 53 bits and an exponent k from -1074 on. \<open>double q\<close> is the number that a
  conversion or an arithmetic operation with the exact result q yields: q rounded to the
  nearest such number, to the one with the even significand when q lies half way between
  two. \<open>ilog2 q\<close> is the exponent of a positive q, the integer e with 2^e \<le> q < 2^(e+1);
  the numbers between 2^e and 2^(e+1) are the multiples of 2^(e-52), and those below
  2^(-1022) are the multiples of 2^(-1074). Overflow to Infinity, from 2^1024 on, is
  left out: the amounts are decimal columns and the quantities 32-bit integers.
\<close>

definition pow2 :: "int \<Rightarrow> rat" where
  "pow2 e = (if 0 \<le> e then 2 ^ nat e else 1 / 2 ^ nat (- e))"

definition ilog2 :: "rat \<Rightarrow> int" where
  "ilog2 q = (if 1 \<le> q then bitlen \<lfloor>q\<rfloor> - 1 else - bitlen (- \<lfloor>- (1 / q)\<rfloor> - 1))"

definition round_half_even :: "rat \<Rightarrow> int" where
  "round_half_even x =
     (let f = \<lfloor>x\<rfloor>; d = x - of_int f
      in if d < 1 / 2 then f
         else if 1 / 2 < d then f + 1
         else if f mod 2 = 0 then f else f + 1)"

definition double :: "rat \<Rightarrow> rat" where
  "double q =
     (if q = 0 then 0
      else
        (let e = max (ilog2 \<bar>q\<bar>) (- 1022);
             u = pow2 (e - 52)
         in u * of_int (round_half_even (q / u))))"

text \<open>
  \<open>Math.round\<close> rounds to the nearest integer, a half towards plus infinity; the result
  is a double again for every argument below 2^52 in size.
\<close>

definition Math_round :: "rat \<Rightarrow> int" where
  "Math_round x = \<lfloor>x + 1 / 2\<rfloor>"

text \<open>\<open>String.prototype.includes\<close>.\<close>

fun str_includes :: "string \<Rightarrow> string \<Rightarrow> bool" where
  "str_includes [] sub = (sub = [])"
| "str_includes (c # cs) sub = (take (length sub) (c # cs) = sub \<or> str_includes cs sub)"

text \<open>\<open>toUpperCase\<close> on the ASCII letters; other bytes are left as they are.\<close>

definition toUpperCase_char :: "char \<Rightarrow> char" where
  "toUpperCase_char c =
     (if 97 \<le> (of_char c :: nat) \<and> (of_char c :: nat) \<le> 122
      then char_of ((of_char c :: nat) - 32) else c)"

definition toUpperCase :: "string \<Rightarrow> string" where
  "toUpperCase s = map toUpperCase_char s"

text \<open>
  A string option in a condition: null, undefined and the empty string are falsy.
\<close>

definition truthy :: "string option \<Rightarrow> bool" where
  "truthy s = (case s of None \<Rightarrow> False | Some v \<Rightarrow> v \<noteq> [])"

section \<open>Database operations\<close>

text \<open>
  A transaction commits the database its body returns, or keeps the database it started
  from when the body throws.
\<close>

definition transaction :: "(DB \<Rightarrow> error + DB \<times> 'a) \<Rightarrow> DB \<Rightarrow> DB \<times> (error + 'a)" where
  "transaction body db =
     (case body db of Inl e \<Rightarrow> (db, Inl e) | Inr (db', r) \<Rightarrow> (db', Inr r))"

text \<open>\<open>update\<close> on a unique key throws P2025 when no row has the key.\<close>

definition variant_update_stock :: "string \<Rightarrow> int \<Rightarrow> DB \<Rightarrow> error + DB" where
  "variant_update_stock vid delta db =
     (if \<exists>v \<in> set (variants db). variant_id v = vid
      then Inr (db\<lparr>variants :=
             map (\<lambda>v. if variant_id v = vid then v\<lparr>variant_stock := variant_stock v + delta\<rparr> else v)
               (variants db)\<rparr>)
      else Inl (PrismaError ''P2025''))"

definition product_update_stock :: "string \<Rightarrow> int \<Rightarrow> DB \<Rightarrow> error + DB" where
  "product_update_stock pid delta db =
     (if \<exists>p \<in> set (products db). product_id p = pid
      then Inr (db\<lparr>products :=
             map (\<lambda>p. if product_id p = pid then p\<lparr>product_stock := product_stock p + delta\<rparr> else p)
               (products db)\<rparr>)
      else Inl (PrismaError ''P2025''))"

definition order_update :: "string \<Rightarrow> (Order \<Rightarrow> Order) \<Rightarrow> DB \<Rightarrow> error + DB" where
  "order_update oid f db =
     (if \<exists>r \<in> set (orders db). order_id r = oid
      then Inr (db\<lparr>orders := map (\<lambda>r. if order_id r = oid then f r else r) (orders db)\<rparr>)
      else Inl (PrismaError ''P2025''))"

definition order_updateMany :: "(Order \<Rightarrow> bool) \<Rightarrow> (Order \<Rightarrow> Order) \<Rightarrow> DB \<Rightarrow> DB" where
  "order_updateMany cond f db =
     db\<lparr>orders := map (\<lambda>r. if cond r then f r else r) (orders db)\<rparr>"

definition coupon_update :: "string \<Rightarrow> (Coupon \<Rightarrow> Coupon) \<Rightarrow> DB \<Rightarrow> error + DB" where
  "coupon_update cid f db =
     (if \<exists>c \<in> set (coupons db). coupon_id c = cid
      then Inr (db\<lparr>coupons := map (\<lambda>c. if coupon_id c = cid then f c else c) (coupons db)\<rparr>)
      else Inl (PrismaError ''P2025''))"

definition cartItem_deleteMany :: "string \<Rightarrow> DB \<Rightarrow> DB" where
  "cartItem_deleteMany cid db =
     db\<lparr>cartItems := filter (\<lambda>i. cartItem_cartId i \<noteq> cid) (cartItems db)\<rparr>"

text \<open>
  Modelled from the spec: the unique constraints of the Order table (the Prisma schema is
  not part of the sources; the spec calls orderNumber globally unique, and the row id is
  the primary key). \<open>create\<close> throws P2002 when the new row would repeat either.
\<close>

definition order_create :: "Order \<Rightarrow> DB \<Rightarrow> error + DB" where
  "order_create new db =
     (if \<exists>r \<in> set (orders db). orderNumber r = orderNumber new \<or> order_id r = order_id new
      then Inl (PrismaError ''P2002'')
      else Inr (db\<lparr>orders := orders db @ [new]\<rparr>))"

text \<open>
  The stock loop, written twice in the source with the same body: createOrder runs it over
  the cart items and verifyPayment over the order items. For each item it updates the
  variant row when the item has a variant id, then the product row, both by the item's
  quantity.
\<close>

definition decrementItem :: "string \<Rightarrow> string option \<Rightarrow> int \<Rightarrow> DB \<Rightarrow> error + DB" where
  "decrementItem pid vid q db =
     (case (case vid of
              None \<Rightarrow> Inr db
            | Some v \<Rightarrow> if v = [] then Inr db else variant_update_stock v (- q) db) of
        Inl e \<Rightarrow> Inl e
      | Inr db1 \<Rightarrow> product_update_stock pid (- q) db1)"

fun deductStock :: "(string \<times> string option \<times> int) list \<Rightarrow> DB \<Rightarrow> error + DB" where
  "deductStock [] db = Inr db"
| "deductStock ((pid, vid, q) # rest) db =
     (case decrementItem pid vid q db of
        Inl e \<Rightarrow> Inl e
      | Inr db1 \<Rightarrow> deductStock rest db1)"

text \<open>
  \<open>findFirst\<close> with \<open>orderBy: { createdAt: 'desc' }\<close>: the row with the greatest creation
  time, the earliest such row of the table when several share it.
\<close>

fun newest :: "Order \<Rightarrow> Order list \<Rightarrow> Order" where
  "newest best [] = best"
| "newest best (r # rs) = newest (if createdAt best < createdAt r then r else best) rs"

definition findFirst_createdAt_desc :: "Order list \<Rightarrow> Order option" where
  "findFirst_createdAt_desc rs = (case rs of [] \<Rightarrow> None | r # rest \<Rightarrow> Some (newest r rest))"

section \<open>The payment service\<close>

definition createRazorpayOrder :: "Env \<Rightarrow> rat \<Rightarrow> string \<Rightarrow> error + RazorpayOrderResult" where
  "createRazorpayOrder env amount receipt =
     (if amount \<le> 0 then Inl (Error ''Invalid payment details'')
      else
        (case razorpay_orders_create env (Math_round (double (amount * 100))) receipt of
           Inl message \<Rightarrow>
             if str_includes message ''Invalid'' then Inl (Error ''Invalid payment details'')
             else Inl (Error ''Payment gateway error. Please try again.'')
         | Inr remote \<Rightarrow>
             Inr (remote\<lparr>rzp_receipt :=
                    (if rzp_receipt remote = [] then receipt else rzp_receipt remote)\<rparr>)))"

text \<open>
  \<open>Buffer.from(s, 'hex')\<close> reads two hexadecimal digits per byte, in either case, and stops
  at the first pair that is not hexadecimal; a last single character is dropped.
\<close>

definition unhex :: "char \<Rightarrow> nat option" where
  "unhex c =
     (let n = (of_char c :: nat)
      in if 48 \<le> n \<and> n \<le> 57 then Some (n - 48)
         else if 97 \<le> n \<and> n \<le> 102 then Some (n - 87)
         else if 65 \<le> n \<and> n \<le> 70 then Some (n - 55)
         else None)"

fun Buffer_from_hex :: "string \<Rightarrow> nat list" where
  "Buffer_from_hex (a # b # rest) =
     (case unhex a of
        None \<Rightarrow> []
      | Some x \<Rightarrow>
          (case unhex b of
             None \<Rightarrow> []
           | Some y \<Rightarrow> (16 * x + y) # Buffer_from_hex rest))"
| "Buffer_from_hex [a] = []"
| "Buffer_from_hex [] = []"

text \<open>
  verifyRazorpaySignature: false when the secret is not configured (the error is caught),
  false when the two buffers differ in length, else the result of the constant-time
  comparison of the buffers.
\<close>

definition verifyRazorpaySignature :: "Env \<Rightarrow> string \<Rightarrow> string \<Rightarrow> string \<Rightarrow> bool" where
  "verifyRazorpaySignature env orderId paymentId signature =
     (case RAZORPAY_KEY_SECRET env of
        None \<Rightarrow> False
      | Some secret \<Rightarrow>
          if secret = [] then False
          else
            (let body = orderId @ ''|'' @ paymentId;
                 expectedSignature = createHmac_sha256_hex env secret body;
                 expectedBuf = Buffer_from_hex expectedSignature;
                 signatureBuf = Buffer_from_hex signature
             in if length expectedBuf \<noteq> length signatureBuf then False
                else expectedBuf = signatureBuf))"

definition fetchPaymentDetails :: "Env \<Rightarrow> string \<Rightarrow> error + rat" where
  "fetchPaymentDetails env paymentId =
     (case razorpay_payments_fetch env paymentId of
        None \<Rightarrow> Inl (Error ''Could not fetch payment details'')
      | Some amount \<Rightarrow> Inr amount)"

section \<open>createOrder\<close>

text \<open>
  The amount columns are decimal objects (the source converts each with \<open>Number\<close>), so in
  \<open>discountPrice || price\<close> and in \<open>if (coupon.maxDiscount)\<close> every value that is not null
  counts as present. The unit price is the converted base price, plus the converted
  additional price of the variant when the item has one; the subtotal of the item is the
  product of the unit price and the quantity; each is a double.
\<close>

definition basePrice :: "Product \<Rightarrow> rat" where
  "basePrice p = (case discountPrice p of None \<Rightarrow> price p | Some d \<Rightarrow> d)"

definition toOrderItem :: "DB \<Rightarrow> CartItem \<Rightarrow> error + OrderItem" where
  "toOrderItem db item =
     (case find (\<lambda>p. product_id p = cartItem_productId item) (products db) of
        None \<Rightarrow> Inl TypeError
      | Some p \<Rightarrow>
          (let variant =
                 (case cartItem_variantId item of
                    None \<Rightarrow> None
                  | Some vid \<Rightarrow> find (\<lambda>v. variant_id v = vid) (variants db));
               unitPrice =
                 (case variant of
                    Some v \<Rightarrow> double (double (basePrice p) + double (additionalPrice v))
                  | None \<Rightarrow> double (basePrice p));
               itemSubtotal = double (unitPrice * of_int (cartItem_quantity item))
           in Inr \<lparr>productId = cartItem_productId item,
                   variantId = cartItem_variantId item,
                   productName = product_name p,
                   productImage = (case primaryImageUrl p of None \<Rightarrow> [] | Some u \<Rightarrow> u),
                   item_size =
                     (case variant of
                        None \<Rightarrow> ''Standard''
                      | Some v \<Rightarrow> if variant_size v = [] then ''Standard'' else variant_size v),
                   item_color =
                     (case variant of
                        None \<Rightarrow> ''Default''
                      | Some v \<Rightarrow> if variant_color v = [] then ''Default'' else variant_color v),
                   item_price = unitPrice,
                   quantity = cartItem_quantity item,
                   item_subtotal = itemSubtotal\<rparr>))"

fun toOrderItems :: "DB \<Rightarrow> CartItem list \<Rightarrow> error + OrderItem list" where
  "toOrderItems db [] = Inr []"
| "toOrderItems db (item # rest) =
     (case toOrderItem db item of
        Inl e \<Rightarrow> Inl e
      | Inr oi \<Rightarrow>
          (case toOrderItems db rest of
             Inl e \<Rightarrow> Inl e
           | Inr ois \<Rightarrow> Inr (oi # ois)))"

definition findCart :: "DB \<Rightarrow> string \<Rightarrow> (Cart \<times> CartItem list) option" where
  "findCart db uid =
     (case find (\<lambda>c. cart_userId c = uid) (carts db) of
        None \<Rightarrow> None
      | Some c \<Rightarrow> Some (c, filter (\<lambda>i. cartItem_cartId i = cart_id c) (cartItems db)))"

definition reusable :: "string \<Rightarrow> int \<Rightarrow> Order \<Rightarrow> bool" where
  "reusable uid tenMinutesAgo r \<longleftrightarrow>
     userId r = uid \<and> paymentMethod r = RAZORPAY \<and> paymentStatus r = PAYMENT_PENDING \<and>
     orderStatus r = PENDING \<and> razorpayOrderId r \<noteq> None \<and> tenMinutesAgo \<le> createdAt r"

definition expired :: "string \<Rightarrow> int \<Rightarrow> Order \<Rightarrow> bool" where
  "expired uid tenMinutesAgo r \<longleftrightarrow>
     userId r = uid \<and> paymentMethod r = RAZORPAY \<and> paymentStatus r = PAYMENT_PENDING \<and>
     orderStatus r = PENDING \<and> createdAt r < tenMinutesAgo"

text \<open>
  The coupon step of createOrder (lines 889 to 916): the lookup takes the code as the
  client sent it; the increment of usedCount is written to the database at once, before
  the transaction that creates the order starts.
\<close>

definition applyCoupon :: "Env \<Rightarrow> DB \<Rightarrow> string option \<Rightarrow> rat \<Rightarrow> error + DB \<times> rat" where
  "applyCoupon env db couponCode sub =
     (case couponCode of
        None \<Rightarrow> Inr (db, 0)
      | Some cc \<Rightarrow>
          if cc = [] then Inr (db, 0)
          else
            (case find (\<lambda>c. code c = cc) (coupons db) of
               None \<Rightarrow> Inr (db, 0)
             | Some coupon \<Rightarrow>
                 if isActive coupon \<and> usedCount coupon < usageLimit coupon \<and>
                    validFrom coupon \<le> now env \<and> now env \<le> validUntil coupon \<and>
                    double (minPurchase coupon) \<le> sub
                 then
                   (let disc =
                          (if discountType coupon = PERCENTAGE
                           then (let d = double (sub * double (double (discountValue coupon) / 100))
                                 in case maxDiscount coupon of
                                      None \<Rightarrow> d
                                    | Some m \<Rightarrow> min d (double m))
                           else double (discountValue coupon))
                    in case coupon_update (coupon_id coupon)
                              (\<lambda>c. c\<lparr>usedCount := usedCount c + 1\<rparr>) db of
                         Inl e \<Rightarrow> Inl e
                       | Inr db1 \<Rightarrow> Inr (db1, disc))
                 else Inr (db, 0)))"

text \<open>
  The totals and the order row that createOrder hands to \<open>order.create\<close> (lines 918 to
  946): shipping is free from 999 on and 99 below, tax is the product of the subtotal and
  the double nearest to 0.18, rounded to an integer, and the total is
  \<open>subtotal - discount + shippingCharge + tax\<close> evaluated from left to right, each
  difference and sum rounded to a double.
\<close>

definition newOrder :: "Env \<Rightarrow> CreateOrderRequest \<Rightarrow> string \<Rightarrow> OrderItem list \<Rightarrow> rat \<Rightarrow> rat \<Rightarrow> Order" where
  "newOrder env req uid orderItems sub disc =
     (let shipping = (if 999 \<le> sub then 0 else 99);
          gst = of_int (Math_round (double (sub * double (18 / 100))));
          tot = double (double (double (sub - disc) + shipping) + gst)
      in \<lparr>order_id = generatedOrderId env,
           orderNumber = generatedOrderNumber env,
           userId = uid,
           addressId = req_addressId req,
           subtotal = sub,
           discount = disc,
           shippingCharge = shipping,
           tax = gst,
           total = tot,
           paymentMethod = req_paymentMethod req,
           paymentStatus = PAYMENT_PENDING,
           orderStatus = PENDING,
           order_notes = (if truthy (req_notes req) then req_notes req else None),
           razorpayOrderId = None,
           razorpayPaymentId = None,
           razorpaySignature = None,
           createdAt = now env,
           items = orderItems\<rparr>)"

text \<open>
  The body of the transaction of createOrder (lines 928 to 972): the order row with its
  items; for COD also the stock loop over the cart items and the deletion of the cart's
  items.
\<close>

definition createOrder_tx :: "Order \<Rightarrow> Cart \<Rightarrow> CartItem list \<Rightarrow> DB \<Rightarrow> error + DB \<times> Order" where
  "createOrder_tx new cart citems tx =
     (case order_create new tx of
        Inl e \<Rightarrow> Inl e
      | Inr tx1 \<Rightarrow>
          if paymentMethod new = COD
          then
            (case deductStock
                    (map (\<lambda>i. (cartItem_productId i, cartItem_variantId i, cartItem_quantity i))
                       citems) tx1 of
               Inl e \<Rightarrow> Inl e
             | Inr tx2 \<Rightarrow> Inr (cartItem_deleteMany (cart_id cart) tx2, new))
          else Inr (tx1, new))"

text \<open>
  createOrder from the transaction on (lines 925 to 1020): the transaction, then for
  RAZORPAY the remote order and the update that stores its id on the order row. The
  answer carries the order as the transaction returned it. The confirmation e-mail is
  sent without being awaited and changes neither the database nor the answer.
\<close>

definition createOrder_commit ::
  "Env \<Rightarrow> DB \<Rightarrow> Cart \<Rightarrow> CartItem list \<Rightarrow> Order \<Rightarrow> DB \<times> (error + CreateOrderResponse)" where
  "createOrder_commit env db2 cart citems new =
     (case transaction (createOrder_tx new cart citems) db2 of
        (db3, Inl e) \<Rightarrow> (db3, Inl e)
      | (db3, Inr ord) \<Rightarrow>
          if paymentMethod new = RAZORPAY
          then
            (case createRazorpayOrder env (total new) (orderNumber new) of
               Inl e \<Rightarrow> (db3, Inl e)
             | Inr remote \<Rightarrow>
                 (case order_update (order_id ord)
                         (\<lambda>r. r\<lparr>razorpayOrderId := Some (rzp_id remote)\<rparr>) db3 of
                    Inl e \<Rightarrow> (db3, Inl e)
                  | Inr db4 \<Rightarrow> (db4, Inr (Created ord (Some remote)))))
          else (db3, Inr (Created ord None)))"

text \<open>
  createOrder from "Calculate order totals" to the totals (lines 867 to 923). The
  subtotal starts at 0 and takes up the subtotal of one item after the other, each sum
  rounded to a double.
\<close>

definition createOrder_fresh ::
  "Env \<Rightarrow> DB \<Rightarrow> CreateOrderRequest \<Rightarrow> string \<Rightarrow> Cart \<Rightarrow> CartItem list
     \<Rightarrow> DB \<times> (error + CreateOrderResponse)" where
  "createOrder_fresh env db req uid cart citems =
     (case toOrderItems db citems of
        Inl e \<Rightarrow> (db, Inl e)
      | Inr orderItems \<Rightarrow>
          (let sub = foldl (\<lambda>s i. double (s + item_subtotal i)) 0 orderItems
           in case applyCoupon env db (req_couponCode req) sub of
                Inl e \<Rightarrow> (db, Inl e)
              | Inr (db2, disc) \<Rightarrow>
                  createOrder_commit env db2 cart citems
                    (newOrder env req uid orderItems sub disc)))"

text \<open>createOrder, lines 782 to 865, then the rest above.\<close>

definition createOrder :: "Env \<Rightarrow> DB \<Rightarrow> CreateOrderRequest \<Rightarrow> DB \<times> (error + CreateOrderResponse)" where
  "createOrder env db req =
     (case req_user req of
        None \<Rightarrow> (db, Inl (AppError ''Not authenticated'' 401))
      | Some uid \<Rightarrow>
          (case find (\<lambda>a. address_id a = req_addressId req) (addresses db) of
             None \<Rightarrow> (db, Inl (NotFoundError ''Address''))
           | Some address \<Rightarrow>
               if address_userId address \<noteq> uid then (db, Inl (NotFoundError ''Address''))
               else
                 (case findCart db uid of
                    None \<Rightarrow> (db, Inl (AppError ''Your cart is empty'' 400))
                  | Some (cart, citems) \<Rightarrow>
                      if citems = [] then (db, Inl (AppError ''Your cart is empty'' 400))
                      else if req_paymentMethod req = RAZORPAY
                      then
                        (let tenMinutesAgo = now env - 10 * 60 * 1000
                         in case findFirst_createdAt_desc
                                   (filter (reusable uid tenMinutesAgo) (orders db)) of
                              Some existingPendingOrder \<Rightarrow>
                                (db, Inr (ExistingPending existingPendingOrder))
                            | None \<Rightarrow>
                                createOrder_fresh env
                                  (order_updateMany (expired uid tenMinutesAgo)
                                     (\<lambda>r. r\<lparr>orderStatus := CANCELLED, paymentStatus := FAILED\<rparr>) db)
                                  req uid cart citems)
                      else createOrder_fresh env db req uid cart citems)))"

section \<open>verifyPayment\<close>

text \<open>
  The body of the transaction of verifyPayment (lines 1099 to 1135): the order row, the
  stock loop over the items of the updated order, the deletion of the items of the
  owner's cart.
\<close>

definition verifyPayment_tx :: "Order \<Rightarrow> string \<Rightarrow> string \<Rightarrow> DB \<Rightarrow> error + DB \<times> Order" where
  "verifyPayment_tx existingOrder paymentId signature tx =
     (case order_update (order_id existingOrder)
             (\<lambda>r. r\<lparr>paymentStatus := PAID, orderStatus := CONFIRMED,
                    razorpayPaymentId := Some paymentId,
                    razorpaySignature := Some signature\<rparr>) tx of
        Inl e \<Rightarrow> Inl e
      | Inr tx1 \<Rightarrow>
          (case find (\<lambda>r. order_id r = order_id existingOrder) (orders tx1) of
             None \<Rightarrow> Inl (PrismaError ''P2025'')
           | Some updatedOrder \<Rightarrow>
               (case deductStock
                       (map (\<lambda>i. (productId i, variantId i, quantity i)) (items updatedOrder))
                       tx1 of
                  Inl e \<Rightarrow> Inl e
                | Inr tx2 \<Rightarrow>
                    Inr ((case find (\<lambda>c. cart_userId c = userId existingOrder) (carts tx2) of
                            None \<Rightarrow> tx2
                          | Some cart \<Rightarrow> cartItem_deleteMany (cart_id cart) tx2),
                         updatedOrder))))"

definition verifyPayment :: "Env \<Rightarrow> DB \<Rightarrow> VerifyPaymentRequest \<Rightarrow> DB \<times> (error + Order)" where
  "verifyPayment env db req =
     (case vp_user req of
        None \<Rightarrow> (db, Inl (AppError ''Not authenticated'' 401))
      | Some uid \<Rightarrow>
          if razorpay_order_id req = [] \<or> razorpay_payment_id req = [] \<or>
             razorpay_signature req = []
          then (db, Inl (AppError ''Missing payment verification details'' 400))
          else if \<not> verifyRazorpaySignature env (razorpay_order_id req)
                      (razorpay_payment_id req) (razorpay_signature req)
          then
            (order_updateMany (\<lambda>r. razorpayOrderId r = Some (razorpay_order_id req))
               (\<lambda>r. r\<lparr>paymentStatus := FAILED\<rparr>) db,
             Inl (AppError ''Payment verification failed'' 400))
          else
            (case find (\<lambda>r. razorpayOrderId r = Some (razorpay_order_id req)) (orders db) of
               None \<Rightarrow> (db, Inl (NotFoundError ''Order''))
             | Some existingOrder \<Rightarrow>
                 if userId existingOrder \<noteq> uid
                 then (db, Inl (AppError ''You are not authorized to verify this payment'' 403))
                 else
                   (case fetchPaymentDetails env (razorpay_payment_id req) of
                      Inl e \<Rightarrow> (db, Inl (AppError ''Could not verify payment amount'' 500))
                    | Inr amount \<Rightarrow>
                        (let paidAmountInRupees = amount / 100;
                             orderTotal = total existingOrder
                         in if 1 / 100 < \<bar>paidAmountInRupees - orderTotal\<bar>
                            then
                              (case order_update (order_id existingOrder)
                                      (\<lambda>r. r\<lparr>paymentStatus := FAILED\<rparr>) db of
                                 Inl e \<Rightarrow>
                                   (db, Inl (AppError ''Could not verify payment amount'' 500))
                               | Inr db1 \<Rightarrow>
                                   (db1, Inl (AppError
                                      ''Payment amount does not match order total'' 400)))
                            else
                              transaction
                                (verifyPayment_tx existingOrder (razorpay_payment_id req)
                                   (razorpay_signature req)) db))))"

section \<open>cancelOrder\<close>

definition restoreItem :: "string \<Rightarrow> string option \<Rightarrow> int \<Rightarrow> DB \<Rightarrow> error + DB" where
  "restoreItem pid vid q db =
     (case product_update_stock pid q db of
        Inl e \<Rightarrow> Inl e
      | Inr db1 \<Rightarrow>
          (case vid of
             None \<Rightarrow> Inr db1
           | Some v \<Rightarrow> if v = [] then Inr db1 else variant_update_stock v q db1))"

fun restoreStock :: "OrderItem list \<Rightarrow> DB \<Rightarrow> error + DB" where
  "restoreStock [] db = Inr db"
| "restoreStock (item # rest) db =
     (case restoreItem (productId item) (variantId item) (quantity item) db of
        Inl e \<Rightarrow> Inl e
      | Inr db1 \<Rightarrow> restoreStock rest db1)"

definition cancelOrder_tx :: "Order \<Rightarrow> DB \<Rightarrow> error + DB \<times> unit" where
  "cancelOrder_tx ord tx =
     (case restoreStock (items ord) tx of
        Inl e \<Rightarrow> Inl e
      | Inr tx1 \<Rightarrow>
          (case order_update (order_id ord)
                  (\<lambda>r. r\<lparr>orderStatus := CANCELLED,
                         paymentStatus :=
                           (if paymentStatus ord = PAID then REFUNDED else paymentStatus ord)\<rparr>)
                  tx1 of
             Inl e \<Rightarrow> Inl e
           | Inr tx2 \<Rightarrow> Inr (tx2, ())))"

definition cancelOrder :: "DB \<Rightarrow> string option \<Rightarrow> string \<Rightarrow> DB \<times> (error + unit)" where
  "cancelOrder db user oid =
     (case user of
        None \<Rightarrow> (db, Inl (AppError ''Not authenticated'' 401))
      | Some uid \<Rightarrow>
          (case find (\<lambda>r. order_id r = oid) (orders db) of
             None \<Rightarrow> (db, Inl (NotFoundError ''Order''))
           | Some ord \<Rightarrow>
               if userId ord \<noteq> uid then (db, Inl (AppError ''Access denied'' 403))
               else if \<not> (orderStatus ord = PENDING \<or> orderStatus ord = CONFIRMED)
               then (db, Inl (AppError ''Order cannot be cancelled at this stage'' 400))
               else transaction (cancelOrder_tx ord) db))"

section \<open>validateCoupon\<close>

text \<open>
  The preview endpoint (lines 1298 to 1366). It reads the coupon table and writes
  nothing, so it returns no database. The subtotal of the request body is a JSON number,
  read as the nearest double. The message of the minimum purchase error carries the
  amount, which is left out of the message here.
\<close>

definition validateCoupon :: "Env \<Rightarrow> DB \<Rightarrow> ValidateCouponRequest \<Rightarrow> error + CouponPreview" where
  "validateCoupon env db req =
     (case vc_couponCode req of
        None \<Rightarrow> Inl (AppError ''Coupon code is required'' 400)
      | Some couponCode \<Rightarrow>
          if couponCode = [] then Inl (AppError ''Coupon code is required'' 400)
          else
            (case find (\<lambda>c. code c = toUpperCase couponCode) (coupons db) of
               None \<Rightarrow> Inl (AppError ''Invalid coupon code'' 404)
             | Some coupon \<Rightarrow>
                 if \<not> isActive coupon
                 then Inl (AppError ''This coupon is no longer active'' 400)
                 else if usageLimit coupon \<le> usedCount coupon
                 then Inl (AppError ''This coupon has reached its usage limit'' 400)
                 else if now env < validFrom coupon
                 then Inl (AppError ''This coupon is not yet valid'' 400)
                 else if validUntil coupon < now env
                 then Inl (AppError ''This coupon has expired'' 400)
                 else
                   (let orderSubtotal = (case vc_subtotal req of None \<Rightarrow> 0 | Some s \<Rightarrow> double s)
                    in if 0 < orderSubtotal \<and> orderSubtotal < double (minPurchase coupon)
                       then Inl (AppError ''Minimum purchase required for this coupon'' 400)
                       else
                         (let disc =
                                (if 0 < orderSubtotal
                                 then
                                   (if discountType coupon = PERCENTAGE
                                    then (let d = double (orderSubtotal *
                                                    double (double (discountValue coupon) / 100))
                                          in case maxDiscount coupon of
                                               None \<Rightarrow> d
                                             | Some m \<Rightarrow> min d (double m))
                                    else double (discountValue coupon))
                                 else 0)
                          in Inr \<lparr>preview_code = code coupon,
                                  preview_description = description coupon,
                                  preview_discountType = discountType coupon,
                                  preview_discountValue = double (discountValue coupon),
                                  preview_discount = Math_round disc,
                                  preview_minPurchase = double (minPurchase coupon),
                                  preview_maxDiscount = map_option double (maxDiscount coupon)\<rparr>))))"

section \<open>Example data\<close>

text \<open>
  The first coupon of the seed script: ten percent, capped at 500, from a purchase of
  1000 on, valid from 2024-01-01 to 2027-12-31.
\<close>

definition WELCOME10 :: Coupon where
  "WELCOME10 =
     \<lparr>coupon_id = ''coupon-1'', code = ''WELCOME10'',
      description = ''10% off on your first order'', discountType = PERCENTAGE,
      discountValue = 10, minPurchase = 1000, maxDiscount = Some 500, usageLimit = 1000,
      usedCount = 0, validFrom = 1704067200000, validUntil = 1830211200000,
      isActive = True\<rparr>"

text \<open>
  A shop with one customer, who has one address and a cart holding one helmet of the
  given price; five helmets are in stock.
\<close>

definition shop_cart :: Cart where
  "shop_cart = \<lparr>cart_id = ''cart-1'', cart_userId = ''user-1''\<rparr>"

definition shop_cartItem :: CartItem where
  "shop_cartItem =
     \<lparr>cartItem_cartId = ''cart-1'', cartItem_productId = ''prod-1'',
      cartItem_variantId = None, cartItem_quantity = 1\<rparr>"

definition shop :: "rat \<Rightarrow> DB" where
  "shop p =
     \<lparr>addresses = [\<lparr>address_id = ''addr-1'', address_userId = ''user-1''\<rparr>],
      carts = [shop_cart],
      cartItems = [shop_cartItem],
      products = [\<lparr>product_id = ''prod-1'', product_name = ''Helmet'', price = p,
                   discountPrice = None, product_stock = 5, primaryImageUrl = None\<rparr>],
      variants = [],
      coupons = [WELCOME10],
      orders = []\<rparr>"

text \<open>
  A shop whose customer has two visors of 4.20 and three helmets of 330.20 in the cart.
\<close>

definition visor_shop :: DB where
  "visor_shop =
     \<lparr>addresses = [\<lparr>address_id = ''addr-1'', address_userId = ''user-1''\<rparr>],
      carts = [shop_cart],
      cartItems =
        [\<lparr>cartItem_cartId = ''cart-1'', cartItem_productId = ''prod-2'',
          cartItem_variantId = None, cartItem_quantity = 2\<rparr>,
         \<lparr>cartItem_cartId = ''cart-1'', cartItem_productId = ''prod-1'',
          cartItem_variantId = None, cartItem_quantity = 3\<rparr>],
      products =
        [\<lparr>product_id = ''prod-1'', product_name = ''Helmet'', price = 3302 / 10,
          discountPrice = None, product_stock = 5, primaryImageUrl = None\<rparr>,
         \<lparr>product_id = ''prod-2'', product_name = ''Visor'', price = 42 / 10,
          discountPrice = None, product_stock = 5, primaryImageUrl = None\<rparr>],
      variants = [],
      coupons = [WELCOME10],
      orders = []\<rparr>"

text \<open>
  The HMAC-SHA256 of the message \<open>order_rzp1|pay_1\<close> under the key \<open>secret\<close>, in
  hexadecimal digits as \<open>digest('hex')\<close> prints it.
\<close>

definition hmac_order_rzp1_pay_1 :: string where
  "hmac_order_rzp1_pay_1 =
     ''8f38e331229f40302ca36849e2b088f4455f23affcbb16d6c6b348eecd273c62''"

text \<open>
  The environment of the examples: the clock reading, a gateway that accepts every order
  under the remote id \<open>order_rzp1\<close> and reports the given amount for every payment, the
  key \<open>secret\<close>, and a digest function that stands for the crypto library at the one
  message the examples sign.
\<close>

definition shop_env :: "int \<Rightarrow> rat option \<Rightarrow> Env" where
  "shop_env t paid =
     \<lparr>now = t, generatedOrderNumber = ''HLM-20261102-AB12'', generatedOrderId = ''order-1'',
      razorpay_orders_create =
        (\<lambda>amount receipt. Inr \<lparr>rzp_id = ''order_rzp1'', rzp_amount = amount,
                                rzp_currency = ''INR'', rzp_receipt = receipt\<rparr>),
      razorpay_payments_fetch = (\<lambda>paymentId. paid),
      RAZORPAY_KEY_SECRET = Some ''secret'',
      createHmac_sha256_hex = (\<lambda>secret body. hmac_order_rzp1_pay_1)\<rparr>"

text \<open>The order item that createOrder derives from the cart of the shop.\<close>

definition helmet :: "rat \<Rightarrow> OrderItem" where
  "helmet p =
     \<lparr>productId = ''prod-1'', variantId = None, productName = ''Helmet'', productImage = [],
      item_size = ''Standard'', item_color = ''Default'', item_price = p, quantity = 1,
      item_subtotal = p\<rparr>"

definition shop_request :: "PaymentMethod \<Rightarrow> string option \<Rightarrow> CreateOrderRequest" where
  "shop_request pm cc =
     \<lparr>req_user = Some ''user-1'', req_addressId = ''addr-1'', req_paymentMethod = pm,
      req_couponCode = cc, req_notes = None\<rparr>"

text \<open>
  The shop of price 500 after its customer has created a RAZORPAY order at the clock
  reading 1793577600000: the order row, pending, with the remote order id stored on it.
\<close>

definition pending_order :: Order where
  "pending_order =
     (newOrder (shop_env 1793577600000 None) (shop_request RAZORPAY None) ''user-1''
        [helmet 500] 500 0)\<lparr>razorpayOrderId := Some ''order_rzp1''\<rparr>"

definition pending_shop :: DB where
  "pending_shop = (shop 500)\<lparr>orders := [pending_order]\<rparr>"

definition payment_callback :: "string \<Rightarrow> VerifyPaymentRequest" where
  "payment_callback signature =
     \<lparr>vp_user = Some ''user-1'', razorpay_order_id = ''order_rzp1'',
      razorpay_payment_id = ''pay_1'', razorpay_signature = signature\<rparr>"

text \<open>
  The environment of a later call: another order number, another row id, another remote
  order.
\<close>

definition second_env :: "int \<Rightarrow> Env" where
  "second_env t =
     (shop_env t None)
       \<lparr>generatedOrderNumber := ''HLM-20261102-CD34'', generatedOrderId := ''order-2'',
        razorpay_orders_create :=
          (\<lambda>amount receipt. Inr \<lparr>rzp_id = ''order_rzp2'', rzp_amount = amount,
                                  rzp_currency = ''INR'', rzp_receipt = receipt\<rparr>)\<rparr>"

section \<open>Helper lemmas: doubles\<close>

text \<open>
  Every integer below 2^53 in size is a double. The second lemma is the equation by which
  \<open>double\<close> is evaluated: it returns such an integer at once.
\<close>

lemma round_half_even_of_int: "round_half_even (of_int k) = k"
  by (simp add: round_half_even_def)

lemma double_of_int:
  assumes "\<bar>n\<bar> < 2 ^ 53"
  shows "double (of_int n) = of_int n"
proof (cases "n = 0")
  case True
  then show ?thesis by (simp add: double_def)
next
  case False
  define m where "m = \<bar>n\<bar>"
  define e where "e = bitlen m - 1"
  define s where "s = nat (52 - e)"
  have m: "0 < m" "m < 2 ^ 53" using False assms by (simp_all add: m_def)
  have "bitlen m \<noteq> 0" using m(1) by (simp add: bitlen_eq_zero_iff)
  with bitlen_nonneg[of m] have e0: "0 \<le> e" by (simp add: e_def)
  have "bitlen m \<le> 53" using m(2) by (simp add: bitlen_le_iff_power)
  then have e52: "e \<le> 52" by (simp add: e_def)
  have ab: "\<bar>of_int n :: rat\<bar> = of_int m" by (simp add: m_def)
  have "1 \<le> m" using m(1) by simp
  then have "(1::rat) \<le> of_int m" by (metis of_int_1_le_iff)
  then have il: "ilog2 \<bar>of_int n\<bar> = e"
    unfolding ab ilog2_def e_def by simp
  have u: "pow2 (e - 52) = 1 / 2 ^ s"
    using e52 by (cases "e = 52") (simp_all add: pow2_def s_def)
  have q: "(of_int n :: rat) / (1 / 2 ^ s) = of_int (n * 2 ^ s)"
    by simp
  have nz: "(of_int n :: rat) \<noteq> 0" using False by simp
  have mx: "max e (- 1022) = e" using e0 by simp
  have "double (of_int n) =
          pow2 (e - 52) * of_int (round_half_even (of_int n / pow2 (e - 52)))"
    unfolding double_def Let_def il mx using nz by simp
  also have "\<dots> = of_int n"
    unfolding u q round_half_even_of_int by simp
  finally show ?thesis .
qed

lemma double_code [code]:
  "double q =
     (if q = of_int \<lfloor>q\<rfloor> \<and> \<bar>\<lfloor>q\<rfloor>\<bar> < 9007199254740992 then q
      else
        (let e = max (ilog2 \<bar>q\<bar>) (- 1022);
             u = pow2 (e - 52)
         in u * of_int (round_half_even (q / u))))"
proof (cases "q = of_int \<lfloor>q\<rfloor> \<and> \<bar>\<lfloor>q\<rfloor>\<bar> < 9007199254740992")
  case True
  then have "double (of_int \<lfloor>q\<rfloor>) = of_int \<lfloor>q\<rfloor>" by (intro double_of_int) simp
  with True show ?thesis by simp
next
  case False
  then have "q \<noteq> 0" by auto
  then show ?thesis unfolding double_def if_not_P[OF False] by simp
qed

section \<open>The example data is reachable\<close>

lemma pending_shop_reached:
  "createOrder (shop_env 1793577600000 None) (shop 500) (shop_request RAZORPAY None) =
     (pending_shop,
      Inr (Created (pending_order\<lparr>razorpayOrderId := None\<rparr>)
             (Some \<lparr>rzp_id = ''order_rzp1'', rzp_amount = 68900, rzp_currency = ''INR'',
                     rzp_receipt = ''HLM-20261102-AB12''\<rparr>)))"
  by code_simp

section \<open>Helper lemmas: the stock loop\<close>

lemma variant_update_stock_Inr:
  "variant_update_stock vid d db = Inr db' \<Longrightarrow>
     db' = db\<lparr>variants :=
             map (\<lambda>v. if variant_id v = vid then v\<lparr>variant_stock := variant_stock v + d\<rparr> else v)
               (variants db)\<rparr>"
  by (simp add: variant_update_stock_def split: if_splits)

lemma product_update_stock_Inr:
  "product_update_stock pid d db = Inr db' \<Longrightarrow>
     db' = db\<lparr>products :=
             map (\<lambda>p. if product_id p = pid then p\<lparr>product_stock := product_stock p + d\<rparr> else p)
               (products db)\<rparr>"
  by (simp add: product_update_stock_def split: if_splits)

lemma decrementItem_frame:
  assumes "decrementItem pid vid q db = Inr db'"
  shows "addresses db' = addresses db" and "carts db' = carts db"
    and "cartItems db' = cartItems db" and "coupons db' = coupons db"
    and "orders db' = orders db"
    and "products db' =
           map (\<lambda>p. if product_id p = pid then p\<lparr>product_stock := product_stock p - q\<rparr> else p)
             (products db)"
    and "variants db' =
           map (\<lambda>v. if vid = Some (variant_id v) \<and> variant_id v \<noteq> []
                     then v\<lparr>variant_stock := variant_stock v - q\<rparr> else v)
             (variants db)"
proof -
  obtain db1 where v: "(case vid of None \<Rightarrow> Inr db
            | Some v \<Rightarrow> if v = [] then Inr db else variant_update_stock v (- q) db) = Inr db1"
    and p: "product_update_stock pid (- q) db1 = Inr db'"
    using assms by (auto simp: decrementItem_def split: sum.splits)
  have d': "db' = db1\<lparr>products :=
             map (\<lambda>p. if product_id p = pid then p\<lparr>product_stock := product_stock p + (- q)\<rparr> else p)
               (products db1)\<rparr>"
    using product_update_stock_Inr[OF p] .
  have d1: "addresses db1 = addresses db \<and> carts db1 = carts db \<and> cartItems db1 = cartItems db \<and>
            coupons db1 = coupons db \<and> orders db1 = orders db \<and> products db1 = products db \<and>
            variants db1 = map (\<lambda>v. if vid = Some (variant_id v) \<and> variant_id v \<noteq> []
                     then v\<lparr>variant_stock := variant_stock v - q\<rparr> else v) (variants db)"
  proof (cases vid)
    case None
    with v show ?thesis by simp
  next
    case (Some w)
    show ?thesis
    proof (cases "w = []")
      case True
      with v Some have "db1 = db" by simp
      moreover have "map (\<lambda>v. if vid = Some (variant_id v) \<and> variant_id v \<noteq> []
                     then v\<lparr>variant_stock := variant_stock v - q\<rparr> else v) (variants db) = variants db"
        using Some True by (intro map_idI) auto
      ultimately show ?thesis by simp
    next
      case False
      with v Some have "variant_update_stock w (- q) db = Inr db1" by simp
      from variant_update_stock_Inr[OF this] Some False show ?thesis
        by (auto intro!: map_cong)
    qed
  qed
  show "addresses db' = addresses db" "carts db' = carts db" "cartItems db' = cartItems db"
    "coupons db' = coupons db" "orders db' = orders db"
    using d' d1 by simp_all
  show "products db' =
           map (\<lambda>p. if product_id p = pid then p\<lparr>product_stock := product_stock p - q\<rparr> else p)
             (products db)"
    using d' d1 by simp
  show "variants db' =
           map (\<lambda>v. if vid = Some (variant_id v) \<and> variant_id v \<noteq> []
                     then v\<lparr>variant_stock := variant_stock v - q\<rparr> else v)
             (variants db)"
    using d' d1 by simp
qed

lemma deductStock_frame:
  assumes "deductStock xs db = Inr db'"
  shows "addresses db' = addresses db \<and> carts db' = carts db \<and> cartItems db' = cartItems db \<and>
         coupons db' = coupons db \<and> orders db' = orders db"
  using assms
proof (induction xs arbitrary: db)
  case Nil
  then show ?case by simp
next
  case (Cons x xs)
  obtain pid vid q where x: "x = (pid, vid, q)" by (cases x)
  from Cons.prems x obtain db1 where 1: "decrementItem pid vid q db = Inr db1"
    and 2: "deductStock xs db1 = Inr db'"
    by (auto split: sum.splits)
  from Cons.IH[OF 2] decrementItem_frame(1-5)[OF 1] show ?case by simp
qed

lemma deductStock_products:
  assumes "deductStock xs db = Inr db'"
  shows "products db' =
           map (\<lambda>p. p\<lparr>product_stock :=
                        product_stock p -
                        sum_list (map (\<lambda>x. snd (snd x)) (filter (\<lambda>x. fst x = product_id p) xs))\<rparr>)
             (products db)"
  using assms
proof (induction xs arbitrary: db)
  case Nil
  then show ?case by (simp add: map_idI)
next
  case (Cons x xs)
  obtain pid vid q where x: "x = (pid, vid, q)" by (cases x)
  from Cons.prems x obtain db1 where 1: "decrementItem pid vid q db = Inr db1"
    and 2: "deductStock xs db1 = Inr db'"
    by (auto split: sum.splits)
  show ?case
    unfolding Cons.IH[OF 2] decrementItem_frame(6)[OF 1] x
    by (auto simp: comp_def intro!: map_cong)
qed

lemma deductStock_variants:
  assumes "deductStock xs db = Inr db'"
  shows "variants db' =
           map (\<lambda>v. v\<lparr>variant_stock :=
                        variant_stock v -
                        sum_list (map (\<lambda>x. snd (snd x))
                          (filter (\<lambda>x. fst (snd x) = Some (variant_id v) \<and> variant_id v \<noteq> []) xs))\<rparr>)
             (variants db)"
  using assms
proof (induction xs arbitrary: db)
  case Nil
  then show ?case by (simp add: map_idI)
next
  case (Cons x xs)
  obtain pid vid q where x: "x = (pid, vid, q)" by (cases x)
  from Cons.prems x obtain db1 where 1: "decrementItem pid vid q db = Inr db1"
    and 2: "deductStock xs db1 = Inr db'"
    by (auto split: sum.splits)
  show ?case
    unfolding Cons.IH[OF 2] decrementItem_frame(7)[OF 1] x
    by (auto simp: comp_def intro!: map_cong)
qed

section \<open>Helper lemmas: the shape of a successful createOrder\<close>

lemma newOrder_fields:
  "paymentMethod (newOrder env req uid ois s d) = req_paymentMethod req"
  "order_id (newOrder env req uid ois s d) = generatedOrderId env"
  "orderNumber (newOrder env req uid ois s d) = generatedOrderNumber env"
  "userId (newOrder env req uid ois s d) = uid"
  "subtotal (newOrder env req uid ois s d) = s"
  "discount (newOrder env req uid ois s d) = d"
  "paymentStatus (newOrder env req uid ois s d) = PAYMENT_PENDING"
  "orderStatus (newOrder env req uid ois s d) = PENDING"
  "razorpayOrderId (newOrder env req uid ois s d) = None"
  "createdAt (newOrder env req uid ois s d) = now env"
  "items (newOrder env req uid ois s d) = ois"
  by (simp_all add: newOrder_def Let_def)

lemma not_RAZORPAY: "pm \<noteq> RAZORPAY \<longleftrightarrow> pm = COD"
  by (cases pm) simp_all

lemma createOrder_tx_returns: "createOrder_tx new cart citems tx = Inr (tx', ord) \<Longrightarrow> ord = new"
  by (auto simp: createOrder_tx_def split: sum.splits if_splits)

lemma createOrder_commit_Created:
  assumes "createOrder_commit env db2 cart citems new = (db', Inr (Created r rzp))"
  shows "r = new \<and>
         (\<exists>db3. createOrder_tx new cart citems db2 = Inr (db3, new) \<and>
            (if paymentMethod new = RAZORPAY
             then \<exists>remote. rzp = Some remote \<and>
                    createRazorpayOrder env (total new) (orderNumber new) = Inr remote \<and>
                    order_update (order_id new) (\<lambda>x. x\<lparr>razorpayOrderId := Some (rzp_id remote)\<rparr>) db3 = Inr db'
             else rzp = None \<and> db' = db3))"
proof (cases "createOrder_tx new cart citems db2")
  case (Inl e)
  with assms show ?thesis
    by (simp add: createOrder_commit_def transaction_def)
next
  case (Inr p)
  obtain db3 ord where p: "p = (db3, ord)" by (cases p)
  have ord: "ord = new" using Inr p createOrder_tx_returns by blast
  show ?thesis using assms Inr p ord
    by (auto simp: createOrder_commit_def transaction_def split: sum.splits if_splits)
qed

lemma createOrder_fresh_Created:
  assumes "createOrder_fresh env db req uid cart citems = (db', Inr (Created r rzp))"
  shows "\<exists>orderItems db2 disc.
           toOrderItems db citems = Inr orderItems \<and>
           applyCoupon env db (req_couponCode req) (foldl (\<lambda>s i. double (s + item_subtotal i)) 0 orderItems) = Inr (db2, disc) \<and>
           r = newOrder env req uid orderItems (foldl (\<lambda>s i. double (s + item_subtotal i)) 0 orderItems) disc \<and>
           createOrder_commit env db2 cart citems r = (db', Inr (Created r rzp))"
proof (cases "toOrderItems db citems")
  case (Inl e)
  with assms show ?thesis by (simp add: createOrder_fresh_def)
next
  case (Inr ois)
  show ?thesis
  proof (cases "applyCoupon env db (req_couponCode req) (foldl (\<lambda>s i. double (s + item_subtotal i)) 0 ois)")
    case (Inl e)
    with assms Inr show ?thesis by (simp add: createOrder_fresh_def Let_def)
  next
    case (Inr p)
    obtain db2 disc where p: "p = (db2, disc)" by (cases p)
    from assms \<open>toOrderItems db citems = Inr ois\<close> Inr p
    have c: "createOrder_commit env db2 cart citems
               (newOrder env req uid ois (foldl (\<lambda>s i. double (s + item_subtotal i)) 0 ois) disc) = (db', Inr (Created r rzp))"
      by (simp add: createOrder_fresh_def Let_def)
    from createOrder_commit_Created[OF c] have "r = newOrder env req uid ois (foldl (\<lambda>s i. double (s + item_subtotal i)) 0 ois) disc"
      by simp
    with c \<open>toOrderItems db citems = Inr ois\<close> Inr p show ?thesis by auto
  qed
qed

lemma createOrder_Created:
  assumes "createOrder env db req = (db', Inr (Created r rzp))"
  shows "\<exists>uid cart citems address.
           req_user req = Some uid \<and> findCart db uid = Some (cart, citems) \<and> citems \<noteq> [] \<and>
           find (\<lambda>a. address_id a = req_addressId req) (addresses db) = Some address \<and>
           address_userId address = uid \<and>
           createOrder_fresh env
             (if req_paymentMethod req = RAZORPAY
              then order_updateMany (expired uid (now env - 10 * 60 * 1000))
                     (\<lambda>r. r\<lparr>orderStatus := CANCELLED, paymentStatus := FAILED\<rparr>) db
              else db) req uid cart citems = (db', Inr (Created r rzp)) \<and>
           (req_paymentMethod req = RAZORPAY \<longrightarrow>
              findFirst_createdAt_desc (filter (reusable uid (now env - 10 * 60 * 1000)) (orders db)) = None)"
  using assms
  by (auto simp: createOrder_def Let_def split: option.splits if_splits)

section \<open>Helper lemmas: frames and case analysis of createOrder\<close>

lemma order_update_Inr:
  "order_update oid f db = Inr db' \<Longrightarrow>
     db' = db\<lparr>orders := map (\<lambda>r. if order_id r = oid then f r else r) (orders db)\<rparr>"
  by (simp add: order_update_def split: if_splits)

lemma order_create_Inr:
  assumes "order_create new db = Inr db'"
  shows "db' = db\<lparr>orders := orders db @ [new]\<rparr>"
    and "\<forall>r \<in> set (orders db). order_id r \<noteq> order_id new \<and> orderNumber r \<noteq> orderNumber new"
  using assms by (auto simp: order_create_def split: if_splits)

lemma applyCoupon_frame:
  assumes "applyCoupon env db cc s = Inr (db2, d)"
  shows "addresses db2 = addresses db" and "carts db2 = carts db"
    and "cartItems db2 = cartItems db" and "products db2 = products db"
    and "variants db2 = variants db" and "orders db2 = orders db"
  using assms
  by (auto simp: applyCoupon_def coupon_update_def Let_def
      split: option.splits if_splits)

lemma createOrder_tx_Inr:
  assumes "createOrder_tx new cart citems tx = Inr (tx', ord)"
  shows "orders tx' = orders tx @ [new]"
    and "addresses tx' = addresses tx" and "carts tx' = carts tx" and "coupons tx' = coupons tx"
    and "\<forall>r \<in> set (orders tx). order_id r \<noteq> order_id new"
    and "paymentMethod new = COD \<Longrightarrow>
           cartItems tx' = filter (\<lambda>i. cartItem_cartId i \<noteq> cart_id cart) (cartItems tx) \<and>
           products tx' =
             map (\<lambda>p. p\<lparr>product_stock :=
                          product_stock p -
                          sum_list (map cartItem_quantity
                            (filter (\<lambda>i. cartItem_productId i = product_id p) citems))\<rparr>)
               (products tx) \<and>
           variants tx' =
             map (\<lambda>v. v\<lparr>variant_stock :=
                          variant_stock v -
                          sum_list (map cartItem_quantity
                            (filter (\<lambda>i. cartItem_variantId i = Some (variant_id v) \<and>
                                          variant_id v \<noteq> []) citems))\<rparr>)
               (variants tx)"
    and "paymentMethod new \<noteq> COD \<Longrightarrow>
           cartItems tx' = cartItems tx \<and> products tx' = products tx \<and> variants tx' = variants tx"
proof -
  obtain tx1 where c: "order_create new tx = Inr tx1"
    using assms by (auto simp: createOrder_tx_def split: sum.splits)
  note c1 = order_create_Inr[OF c]
  show "\<forall>r \<in> set (orders tx). order_id r \<noteq> order_id new" using c1(2) by blast
  show "paymentMethod new \<noteq> COD \<Longrightarrow>
           cartItems tx' = cartItems tx \<and> products tx' = products tx \<and> variants tx' = variants tx"
    using assms c c1(1) by (auto simp: createOrder_tx_def)
  have frame: "orders tx' = orders tx @ [new] \<and> addresses tx' = addresses tx \<and>
               carts tx' = carts tx \<and> coupons tx' = coupons tx"
  proof (cases "paymentMethod new = COD")
    case False
    with assms c c1(1) show ?thesis by (auto simp: createOrder_tx_def)
  next
    case True
    with assms c obtain tx2 where
      d: "deductStock (map (\<lambda>i. (cartItem_productId i, cartItem_variantId i, cartItem_quantity i)) citems) tx1 = Inr tx2"
      and t: "tx' = cartItem_deleteMany (cart_id cart) tx2"
      by (auto simp: createOrder_tx_def split: sum.splits)
    from deductStock_frame[OF d] t c1(1) show ?thesis
      by (simp add: cartItem_deleteMany_def)
  qed
  then show "orders tx' = orders tx @ [new]" "addresses tx' = addresses tx"
    "carts tx' = carts tx" "coupons tx' = coupons tx"
    by simp_all
  show "cartItems tx' = filter (\<lambda>i. cartItem_cartId i \<noteq> cart_id cart) (cartItems tx) \<and>
           products tx' =
             map (\<lambda>p. p\<lparr>product_stock :=
                          product_stock p -
                          sum_list (map cartItem_quantity
                            (filter (\<lambda>i. cartItem_productId i = product_id p) citems))\<rparr>)
               (products tx) \<and>
           variants tx' =
             map (\<lambda>v. v\<lparr>variant_stock :=
                          variant_stock v -
                          sum_list (map cartItem_quantity
                            (filter (\<lambda>i. cartItem_variantId i = Some (variant_id v) \<and>
                                          variant_id v \<noteq> []) citems))\<rparr>)
               (variants tx)"
    if cod: "paymentMethod new = COD"
  proof -
    from cod assms c obtain tx2 where
      d: "deductStock (map (\<lambda>i. (cartItem_productId i, cartItem_variantId i, cartItem_quantity i)) citems) tx1 = Inr tx2"
      and t: "tx' = cartItem_deleteMany (cart_id cart) tx2"
      by (auto simp: createOrder_tx_def split: sum.splits)
    have 1: "cartItems tx' = filter (\<lambda>i. cartItem_cartId i \<noteq> cart_id cart) (cartItems tx)"
      using deductStock_frame[OF d] t c1(1) by (simp add: cartItem_deleteMany_def)
    have 2: "products tx' = products tx2" and 3: "variants tx' = variants tx2"
      using t by (simp_all add: cartItem_deleteMany_def)
    have 4: "products tx1 = products tx" and 5: "variants tx1 = variants tx"
      using c1(1) by simp_all
    show ?thesis
      unfolding 2 3 deductStock_products[OF d] deductStock_variants[OF d] 4 5
      using 1 by (simp add: filter_map comp_def)
  qed
qed

lemma createOrder_commit_cases:
  assumes "createOrder_commit env db2 cart citems new = (db', res)"
  shows "(\<exists>e. createOrder_tx new cart citems db2 = Inl e \<and> db' = db2 \<and> res = Inl e) \<or>
         (\<exists>db3. createOrder_tx new cart citems db2 = Inr (db3, new) \<and>
            (if paymentMethod new = RAZORPAY
             then (\<exists>e. db' = db3 \<and> res = Inl e) \<or>
                  (\<exists>remote. createRazorpayOrder env (total new) (orderNumber new) = Inr remote \<and>
                     order_update (order_id new)
                       (\<lambda>x. x\<lparr>razorpayOrderId := Some (rzp_id remote)\<rparr>) db3 = Inr db' \<and>
                     res = Inr (Created new (Some remote)))
             else db' = db3 \<and> res = Inr (Created new None)))"
proof (cases "createOrder_tx new cart citems db2")
  case (Inl e)
  with assms show ?thesis
    by (auto simp: createOrder_commit_def transaction_def)
next
  case (Inr p)
  obtain db3 ord where p: "p = (db3, ord)" by (cases p)
  have ord: "ord = new" using Inr p createOrder_tx_returns by blast
  show ?thesis using assms Inr p ord
    by (auto simp: createOrder_commit_def transaction_def split: sum.splits if_splits)
qed

lemma createOrder_fresh_cases:
  assumes "createOrder_fresh env db req uid cart citems = (db', res)"
  shows "(db' = db \<and> (\<exists>e. res = Inl e)) \<or>
         (\<exists>ois db2 disc.
            toOrderItems db citems = Inr ois \<and>
            applyCoupon env db (req_couponCode req)
              (foldl (\<lambda>s i. double (s + item_subtotal i)) 0 ois) = Inr (db2, disc) \<and>
            createOrder_commit env db2 cart citems
              (newOrder env req uid ois (foldl (\<lambda>s i. double (s + item_subtotal i)) 0 ois) disc) = (db', res))"
  using assms
  by (auto simp: createOrder_fresh_def Let_def split: sum.splits prod.splits)


section \<open>Helper lemmas: the coupon step\<close>




lemma order_updateMany_frame:
  "coupons (order_updateMany c f db) = coupons db"
  "products (order_updateMany c f db) = products db"
  "variants (order_updateMany c f db) = variants db"
  "cartItems (order_updateMany c f db) = cartItems db"
  "carts (order_updateMany c f db) = carts db"
  "addresses (order_updateMany c f db) = addresses db"
  by (simp_all add: order_updateMany_def)






lemma createOrder_unfold:
  assumes "req_user req = Some uid" and "findCart db uid = Some (cart, citems)"
  shows "createOrder env db req =
     (case find (\<lambda>a. address_id a = req_addressId req) (addresses db) of
        None \<Rightarrow> (db, Inl (NotFoundError ''Address''))
      | Some address \<Rightarrow>
          if address_userId address \<noteq> uid then (db, Inl (NotFoundError ''Address''))
          else if citems = [] then (db, Inl (AppError ''Your cart is empty'' 400))
          else if req_paymentMethod req = RAZORPAY
          then
            (case findFirst_createdAt_desc
                    (filter (reusable uid (now env - 10 * 60 * 1000)) (orders db)) of
               Some existingPendingOrder \<Rightarrow> (db, Inr (ExistingPending existingPendingOrder))
             | None \<Rightarrow>
                 createOrder_fresh env
                   (order_updateMany (expired uid (now env - 10 * 60 * 1000))
                      (\<lambda>r. r\<lparr>orderStatus := CANCELLED, paymentStatus := FAILED\<rparr>) db)
                   req uid cart citems)
          else createOrder_fresh env db req uid cart citems)"
  using assms by (simp add: createOrder_def Let_def split: option.splits)

section \<open>Helper lemmas: the failing gates of verifyPayment\<close>

lemma order_updateMany_orders:
  "orders (order_updateMany c f db) = map (\<lambda>r. if c r then f r else r) (orders db)"
  by (simp add: order_updateMany_def)


lemma verifyPayment_invalid_signature:
  assumes "vp_user req = Some uid"
    and "razorpay_order_id req \<noteq> []" and "razorpay_payment_id req \<noteq> []"
    and "razorpay_signature req \<noteq> []"
    and "\<not> verifyRazorpaySignature env (razorpay_order_id req) (razorpay_payment_id req)
             (razorpay_signature req)"
  shows "verifyPayment env db req =
           (order_updateMany (\<lambda>r. razorpayOrderId r = Some (razorpay_order_id req))
              (\<lambda>r. r\<lparr>paymentStatus := FAILED\<rparr>) db,
            Inl (AppError ''Payment verification failed'' 400))"
  using assms by (simp add: verifyPayment_def)


section \<open>Helper lemmas: what createOrder leaves untouched\<close>





section \<open>Helper lemmas: the transaction of verifyPayment\<close>





section \<open>Helper lemmas: the pending order that a retry finds\<close>

lemma findFirst_createdAt_desc_None: "findFirst_createdAt_desc rs = None \<longleftrightarrow> rs = []"
  by (cases rs) (simp_all add: findFirst_createdAt_desc_def)

lemma newest_mem: "newest b rs \<in> set (b # rs)"
  by (induction rs arbitrary: b) auto

lemma findFirst_createdAt_desc_mem:
  "findFirst_createdAt_desc rs = Some r \<Longrightarrow> r \<in> set rs"
  using newest_mem by (cases rs) (auto simp: findFirst_createdAt_desc_def)

lemma newest_filter:
  assumes "c \<le> createdAt (newest b rs)"
  shows "(c \<le> createdAt b \<longrightarrow>
            newest b (filter (\<lambda>x. c \<le> createdAt x) rs) = newest b rs) \<and>
         (\<not> c \<le> createdAt b \<longrightarrow>
            findFirst_createdAt_desc (filter (\<lambda>x. c \<le> createdAt x) rs) = Some (newest b rs))"
  using assms
proof (induction rs arbitrary: b)
  case Nil
  then show ?case by simp
next
  case (Cons a rs)
  let ?b' = "if createdAt b < createdAt a then a else b"
  have n: "newest b (a # rs) = newest ?b' rs" by simp
  from Cons.prems n have "c \<le> createdAt (newest ?b' rs)" by simp
  note ih = Cons.IH[OF this]
  show ?case
  proof (cases "c \<le> createdAt a")
    case True
    then show ?thesis using ih
      by (auto simp: findFirst_createdAt_desc_def)
  next
    case False
    then show ?thesis using ih
      by (auto simp: findFirst_createdAt_desc_def)
  qed
qed

lemma findFirst_createdAt_desc_filter:
  assumes "findFirst_createdAt_desc rs = Some e" and "c \<le> createdAt e"
  shows "findFirst_createdAt_desc (filter (\<lambda>x. c \<le> createdAt x) rs) = Some e"
proof (cases rs)
  case Nil
  with assms show ?thesis by (simp add: findFirst_createdAt_desc_def)
next
  case (Cons a rest)
  with assms have e: "e = newest a rest" by (simp add: findFirst_createdAt_desc_def)
  from newest_filter[of c a rest] assms(2) e Cons show ?thesis
    by (auto simp: findFirst_createdAt_desc_def)
qed

lemma reusable_later:
  assumes "t1 \<le> t2"
  shows "reusable uid (t2 - 10 * 60 * 1000) r \<longleftrightarrow>
           reusable uid (t1 - 10 * 60 * 1000) r \<and> t2 - 10 * 60 * 1000 \<le> createdAt r"
  using assms by (auto simp: reusable_def)

lemma findFirst_reusable_later:
  assumes "findFirst_createdAt_desc (filter (reusable uid (t1 - 10 * 60 * 1000)) rs) = Some e"
    and "t1 \<le> t2" and "t2 - createdAt e \<le> 10 * 60 * 1000"
  shows "findFirst_createdAt_desc (filter (reusable uid (t2 - 10 * 60 * 1000)) rs) = Some e"
proof -
  have "filter (reusable uid (t2 - 10 * 60 * 1000)) rs =
          filter (\<lambda>x. t2 - 10 * 60 * 1000 \<le> createdAt x)
            (filter (reusable uid (t1 - 10 * 60 * 1000)) rs)"
    unfolding filter_filter
    by (rule filter_cong[OF refl]) (use reusable_later[OF assms(2)] in blast)
  moreover have "t2 - 10 * 60 * 1000 \<le> createdAt e" using assms(3) by simp
  ultimately show ?thesis
    using findFirst_createdAt_desc_filter[OF assms(1)] by simp
qed

lemma createOrder_fresh_not_Existing:
  "createOrder_fresh env db req uid cart citems \<noteq> (db', Inr (ExistingPending r))"
proof
  assume a: "createOrder_fresh env db req uid cart citems = (db', Inr (ExistingPending r))"
  from createOrder_fresh_cases[OF a] obtain db2 new where
    "createOrder_commit env db2 cart citems new = (db', Inr (ExistingPending r))"
    by auto
  from createOrder_commit_cases[OF this] show False
    by (auto split: if_splits)
qed

lemma createOrder_Existing:
  assumes "createOrder env db req = (db', Inr (ExistingPending r))"
  shows "db' = db \<and> req_paymentMethod req = RAZORPAY \<and>
         (\<exists>uid cart citems address.
            req_user req = Some uid \<and> findCart db uid = Some (cart, citems) \<and> citems \<noteq> [] \<and>
            find (\<lambda>a. address_id a = req_addressId req) (addresses db) = Some address \<and>
            address_userId address = uid \<and>
            findFirst_createdAt_desc
              (filter (reusable uid (now env - 10 * 60 * 1000)) (orders db)) = Some r)"
  using assms createOrder_fresh_not_Existing
  by (auto simp: createOrder_def Let_def split: option.splits if_splits)

lemma createOrder_again_existing:
  assumes run: "createOrder env1 db req = (db1, Inr (ExistingPending r))"
    and le: "now env1 \<le> now env2"
    and win: "now env2 - createdAt r \<le> 10 * 60 * 1000"
  shows "db1 = db \<and> createOrder env2 db1 req = (db1, Inr (ExistingPending r))"
proof -
  from createOrder_Existing[OF run] obtain uid cart citems address where
    same: "db1 = db" and pm: "req_paymentMethod req = RAZORPAY"
    and u: "req_user req = Some uid" and fc: "findCart db uid = Some (cart, citems)"
    and ne: "citems \<noteq> []"
    and ad: "find (\<lambda>a. address_id a = req_addressId req) (addresses db) = Some address"
    and own: "address_userId address = uid"
    and ff: "findFirst_createdAt_desc
              (filter (reusable uid (now env1 - 10 * 60 * 1000)) (orders db)) = Some r"
    by blast
  from findFirst_reusable_later[OF ff le win]
  have "createOrder env2 db req = (db, Inr (ExistingPending r))"
    unfolding createOrder_unfold[OF u fc] using ad own ne pm by simp
  with same show ?thesis by simp
qed

lemma createOrder_again_created:
  assumes run: "createOrder env1 db req = (db1, Inr (Created r rzp))"
    and pm: "req_paymentMethod req = RAZORPAY"
    and le: "now env1 \<le> now env2"
    and win: "now env2 - now env1 \<le> 10 * 60 * 1000"
  shows "\<exists>remote. rzp = Some remote \<and>
           createOrder env2 db1 req =
             (db1, Inr (ExistingPending (r\<lparr>razorpayOrderId := Some (rzp_id remote)\<rparr>)))"
proof -
  define db0 where "db0 = order_updateMany (expired (userId r) (now env1 - 10 * 60 * 1000))
                      (\<lambda>r. r\<lparr>orderStatus := CANCELLED, paymentStatus := FAILED\<rparr>) db"
  from createOrder_Created[OF run] pm obtain uid cart citems address where
    u: "req_user req = Some uid" and fc: "findCart db uid = Some (cart, citems)"
    and ne: "citems \<noteq> []"
    and ad: "find (\<lambda>a. address_id a = req_addressId req) (addresses db) = Some address"
    and own: "address_userId address = uid"
    and fresh: "createOrder_fresh env1
             (order_updateMany (expired uid (now env1 - 10 * 60 * 1000))
                     (\<lambda>r. r\<lparr>orderStatus := CANCELLED, paymentStatus := FAILED\<rparr>) db)
             req uid cart citems = (db1, Inr (Created r rzp))"
    and none: "findFirst_createdAt_desc
                 (filter (reusable uid (now env1 - 10 * 60 * 1000)) (orders db)) = None"
    by auto
  from createOrder_fresh_Created[OF fresh] obtain ois db2 disc where
    ac: "applyCoupon env1
           (order_updateMany (expired uid (now env1 - 10 * 60 * 1000))
                     (\<lambda>r. r\<lparr>orderStatus := CANCELLED, paymentStatus := FAILED\<rparr>) db)
           (req_couponCode req) (foldl (\<lambda>s i. double (s + item_subtotal i)) 0 ois) = Inr (db2, disc)"
    and r: "r = newOrder env1 req uid ois (foldl (\<lambda>s i. double (s + item_subtotal i)) 0 ois) disc"
    and commit: "createOrder_commit env1 db2 cart citems r = (db1, Inr (Created r rzp))"
    by blast
  have rf: "userId r = uid" "paymentMethod r = RAZORPAY" "paymentStatus r = PAYMENT_PENDING"
    "orderStatus r = PENDING" "createdAt r = now env1"
    using r pm by (simp_all add: newOrder_fields)
  from createOrder_commit_Created[OF commit] rf(2) obtain db3 remote where
    tx: "createOrder_tx r cart citems db2 = Inr (db3, r)"
    and rzp: "rzp = Some remote"
    and up: "order_update (order_id r) (\<lambda>x. x\<lparr>razorpayOrderId := Some (rzp_id remote)\<rparr>) db3 = Inr db1"
    by auto
  define r' where "r' = r\<lparr>razorpayOrderId := Some (rzp_id remote)\<rparr>"
  note t = createOrder_tx_Inr[OF tx]
  note f = applyCoupon_frame[OF ac]
  have nc: "paymentMethod r \<noteq> COD" using rf(2) by simp
  have d1: "db1 = db3\<lparr>orders := map (\<lambda>x. if order_id x = order_id r
                                       then x\<lparr>razorpayOrderId := Some (rzp_id remote)\<rparr> else x)
                                  (orders db3)\<rparr>"
    using order_update_Inr[OF up] .
  have old: "map (\<lambda>x. if order_id x = order_id r
                        then x\<lparr>razorpayOrderId := Some (rzp_id remote)\<rparr> else x) (orders db2) =
             orders db2"
    using t(5) by (intro map_idI) auto
  have o2: "orders db2 = map (\<lambda>x. if expired uid (now env1 - 10 * 60 * 1000) x
                                   then x\<lparr>orderStatus := CANCELLED, paymentStatus := FAILED\<rparr> else x)
                            (orders db)"
    using f(6) by (simp add: order_updateMany_orders)
  have o1: "orders db1 = orders db2 @ [r']"
    using d1 t(1) old by (simp add: r'_def)
  have a1: "addresses db1 = addresses db"
    using d1 t(2) f(1) by (simp add: order_updateMany_frame)
  have c1: "carts db1 = carts db" and ci1: "cartItems db1 = cartItems db"
    using d1 t(3) t(7)[OF nc] f(2) f(3) by (simp_all add: order_updateMany_frame)
  have fc1: "findCart db1 uid = Some (cart, citems)"
    using fc unfolding findCart_def c1 ci1 .
  have empty1: "filter (reusable uid (now env1 - 10 * 60 * 1000)) (orders db) = []"
    using none by (simp add: findFirst_createdAt_desc_None)
  have no_old: "filter (reusable uid (now env2 - 10 * 60 * 1000)) (orders db2) = []"
  proof -
    have "\<not> reusable uid (now env2 - 10 * 60 * 1000) y" if y: "y \<in> set (orders db2)" for y
    proof -
      from y o2 obtain x where x: "x \<in> set (orders db)"
        and yx: "y = (if expired uid (now env1 - 10 * 60 * 1000) x
                      then x\<lparr>orderStatus := CANCELLED, paymentStatus := FAILED\<rparr> else x)"
        by auto
      from empty1 x have n1: "\<not> reusable uid (now env1 - 10 * 60 * 1000) x"
        by (auto simp: filter_empty_conv)
      show ?thesis
      proof (cases "expired uid (now env1 - 10 * 60 * 1000) x")
        case True
        with yx show ?thesis by (simp add: reusable_def)
      next
        case False
        with yx n1 reusable_later[OF le, of uid x] show ?thesis by simp
      qed
    qed
    then show ?thesis by (auto simp: filter_empty_conv)
  qed
  have new_ok: "reusable uid (now env2 - 10 * 60 * 1000) r'"
    using rf win by (simp add: reusable_def r'_def)
  have "filter (reusable uid (now env2 - 10 * 60 * 1000)) (orders db1) = [r']"
    using o1 no_old new_ok by simp
  then have ff: "findFirst_createdAt_desc
                   (filter (reusable uid (now env2 - 10 * 60 * 1000)) (orders db1)) = Some r'"
    by (simp add: findFirst_createdAt_desc_def)
  have "createOrder env2 db1 req = (db1, Inr (ExistingPending r'))"
    unfolding createOrder_unfold[OF u fc1] using ad own ne pm a1 ff by simp
  with rzp show ?thesis unfolding r'_def by blast
qed

section \<open>Helper lemmas: what holds of the coupon preview and of cancellation\<close>

text \<open>
  For a coupon code that is already in upper case and a positive subtotal, read as a
  double, the preview and the coupon step of createOrder pass the same gates, and the
  previewed discount is the rounding of the discount that checkout applies. An order that is neither PENDING nor
  CONFIRMED cannot be cancelled, and the attempt changes nothing.
\<close>

lemma preview_matches_checkout_for_exact_code:
  assumes up: "toUpperCase cc = cc" and pos: "0 < double s"
  shows "case validateCoupon env db \<lparr>vc_couponCode = Some cc, vc_subtotal = Some s\<rparr> of
           Inl e \<Rightarrow> applyCoupon env db (Some cc) (double s) = Inr (db, 0)
         | Inr p \<Rightarrow>
             (\<exists>db2 d. applyCoupon env db (Some cc) (double s) = Inr (db2, d) \<and>
                       preview_discount p = Math_round d)"
proof (cases "cc = []")
  case True
  then show ?thesis by (simp add: validateCoupon_def applyCoupon_def)
next
  case False
  show ?thesis
  proof (cases "find (\<lambda>c. code c = cc) (coupons db)")
    case None
    with False up show ?thesis by (simp add: validateCoupon_def applyCoupon_def)
  next
    case (Some coupon)
    then have "coupon \<in> set (coupons db)" by (auto simp: find_Some_iff)
    then have ex: "\<exists>c \<in> set (coupons db). coupon_id c = coupon_id coupon" by blast
    show ?thesis
    proof (cases "isActive coupon \<and> usedCount coupon < usageLimit coupon \<and>
                  validFrom coupon \<le> now env \<and> now env \<le> validUntil coupon \<and>
                  double (minPurchase coupon) \<le> double s")
      case True
      with False up Some pos ex show ?thesis
        by (simp add: validateCoupon_def applyCoupon_def coupon_update_def Let_def not_less not_le)
    next
      case False
      then have g: "(isActive coupon \<and> usedCount coupon < usageLimit coupon \<and>
                  validFrom coupon \<le> now env \<and> now env \<le> validUntil coupon \<and>
                  double (minPurchase coupon) \<le> double s) = False"
        by simp
      have a: "applyCoupon env db (Some cc) (double s) = Inr (db, 0)"
        unfolding applyCoupon_def using \<open>cc \<noteq> []\<close> by (simp add: Some g)
      have "\<exists>e. validateCoupon env db \<lparr>vc_couponCode = Some cc, vc_subtotal = Some s\<rparr> = Inl e"
        using False \<open>cc \<noteq> []\<close> up Some pos
        by (auto simp: validateCoupon_def Let_def not_less not_le)
      with a show ?thesis by auto
    qed
  qed
qed

lemma cancelOrder_rejected_status:
  assumes "find (\<lambda>r. order_id r = oid) (orders db) = Some ord" and "userId ord = uid"
    and "orderStatus ord \<noteq> PENDING" and "orderStatus ord \<noteq> CONFIRMED"
  shows "cancelOrder db (Some uid) oid =
           (db, Inl (AppError ''Order cannot be cancelled at this stage'' 400))"
  using assms by (simp add: cancelOrder_def)

section \<open>Order totals\<close>



text \<open>
  The claim as stated, with the total the exact sum, fails. Two visors of 4.20 and three
  helmets of 330.20 cost 999.00, but the item subtotals are the doubles 8.4 and
  990.5999999999999, and their sum is the double 998.9999999999999. The order gets a
  shipping charge of 99 although the prices add up to 999, a tax of 180 and a total of
  1278, which is not the sum of the four amounts stored with it.
\<close>

theorem createOrder_total_is_not_the_exact_sum:
  "(case createOrder (shop_env 1793577600000 None) visor_shop (shop_request COD None) of
      (db1, Inr (Created r rzp)) \<Rightarrow>
        map item_subtotal (items r) =
          [4728779608739021 / 562949953421312, 2178352436949811 / 2199023255552] \<and>
        subtotal r = 8787296929185791 / 8796093022208 \<and>
        subtotal r < 999 \<and> discount r = 0 \<and> shippingCharge r = 99 \<and> tax r = 180 \<and>
        total r = 1278 \<and>
        subtotal r - discount r + shippingCharge r + tax r = 11241406882381823 / 8796093022208 \<and>
        total r \<noteq> subtotal r - discount r + shippingCharge r + tax r
    | _ \<Rightarrow> False) \<and>
   2 * (42 / 10) + 3 * (3302 / 10) = (999 :: rat)"
  by code_simp

section \<open>Empty cart\<close>



text \<open>
  The claim as stated, with BadRequest for every such call, fails: a caller with an empty
  cart who names an address that does not exist gets the NotFound error of the address,
  status 404, because the address is looked up first.
\<close>

theorem createOrder_empty_cart_unknown_address:
  "findCart ((shop 1000)\<lparr>cartItems := []\<rparr>) ''user-1'' = Some (shop_cart, []) \<and>
   find (\<lambda>a. address_id a = ''addr-9'') (addresses ((shop 1000)\<lparr>cartItems := []\<rparr>)) = None \<and>
   createOrder (shop_env 1793577600000 None) ((shop 1000)\<lparr>cartItems := []\<rparr>)
       \<lparr>req_user = Some ''user-1'', req_addressId = ''addr-9'', req_paymentMethod = COD,
        req_couponCode = None, req_notes = None\<rparr> =
     ((shop 1000)\<lparr>cartItems := []\<rparr>, Inl (AppError ''Address not found'' 404))"
  by code_simp

section \<open>Coupons that fail a validity gate\<close>



section \<open>Payment amount mismatch\<close>



text \<open>
  The claim as stated, for every caller, fails: the ownership gate comes before the amount
  gate. When another authenticated user sends the same callback, with the valid signature
  and a reported amount of 100.00 against the stored total of 689, the call ends with
  status 403, not 400, and the order stays as it was, its paymentStatus PENDING.
\<close>

theorem verifyPayment_amount_mismatch_by_another_user:
  "find (\<lambda>r. razorpayOrderId r = Some ''order_rzp1'') (orders pending_shop) = Some pending_order \<and>
   userId pending_order = ''user-1'' \<and>
   paymentStatus pending_order = PAYMENT_PENDING \<and>
   total pending_order = 689 \<and>
   razorpay_payments_fetch (shop_env 1793577660000 (Some 10000)) ''pay_1'' = Some 10000 \<and>
   1 / 100 < \<bar>10000 / 100 - total pending_order\<bar> \<and>
   verifyRazorpaySignature (shop_env 1793577660000 (Some 10000)) ''order_rzp1'' ''pay_1''
     hmac_order_rzp1_pay_1 \<and>
   verifyPayment (shop_env 1793577660000 (Some 10000)) pending_shop
       ((payment_callback hmac_order_rzp1_pay_1)\<lparr>vp_user := Some ''user-2''\<rparr>) =
     (pending_shop, Inl (AppError ''You are not authorized to verify this payment'' 403)) \<and>
   orders pending_shop = [pending_order]"
  by code_simp

section \<open>Signature mismatch\<close>

text \<open>
  Claim C4, as amended. verifyRazorpaySignature compares the two signatures as byte
  buffers decoded from hexadecimal. When the bytes decoded from the supplied signature
  differ from the bytes decoded from the HMAC-SHA256 digest of \<open>orderId|paymentId\<close> under
  the server secret (or when no secret is configured), verifyPayment fails with the
  BadRequest "Payment verification failed", every order with that gateway order id has
  paymentStatus FAILED, no order becomes PAID, and stock and carts are left as they were.
\<close>

theorem verifyPayment_signature_mismatch:
  "vp_user req = Some uid \<longrightarrow>
   razorpay_order_id req \<noteq> [] \<and> razorpay_payment_id req \<noteq> [] \<and> razorpay_signature req \<noteq> [] \<longrightarrow>
   (case RAZORPAY_KEY_SECRET env of
      None \<Rightarrow> True
    | Some secret \<Rightarrow>
        Buffer_from_hex (razorpay_signature req) \<noteq>
        Buffer_from_hex
          (createHmac_sha256_hex env secret
             (razorpay_order_id req @ ''|'' @ razorpay_payment_id req))) \<longrightarrow>
     snd (verifyPayment env db req) = Inl (AppError ''Payment verification failed'' 400) \<and>
     orders (fst (verifyPayment env db req)) =
       map (\<lambda>r. if razorpayOrderId r = Some (razorpay_order_id req)
                 then r\<lparr>paymentStatus := FAILED\<rparr> else r) (orders db) \<and>
     (\<forall>r \<in> set (orders (fst (verifyPayment env db req))).
        razorpayOrderId r = Some (razorpay_order_id req) \<longrightarrow> paymentStatus r = FAILED) \<and>
     (\<forall>i < length (orders db).
        paymentStatus (orders (fst (verifyPayment env db req)) ! i) = PAID \<longrightarrow>
        paymentStatus (orders db ! i) = PAID) \<and>
     products (fst (verifyPayment env db req)) = products db \<and>
     variants (fst (verifyPayment env db req)) = variants db \<and>
     carts (fst (verifyPayment env db req)) = carts db \<and>
     cartItems (fst (verifyPayment env db req)) = cartItems db \<and>
     coupons (fst (verifyPayment env db req)) = coupons db"
proof (intro impI)
  assume u: "vp_user req = Some uid"
    and ne: "razorpay_order_id req \<noteq> [] \<and> razorpay_payment_id req \<noteq> [] \<and> razorpay_signature req \<noteq> []"
    and bad: "case RAZORPAY_KEY_SECRET env of
      None \<Rightarrow> True
    | Some secret \<Rightarrow>
        Buffer_from_hex (razorpay_signature req) \<noteq>
        Buffer_from_hex
          (createHmac_sha256_hex env secret
             (razorpay_order_id req @ ''|'' @ razorpay_payment_id req))"
  have inv: "\<not> verifyRazorpaySignature env (razorpay_order_id req) (razorpay_payment_id req)
             (razorpay_signature req)"
    using bad by (auto simp: verifyRazorpaySignature_def Let_def split: option.splits)
  note v = verifyPayment_invalid_signature[OF u ne[THEN conjunct1] ne[THEN conjunct2, THEN conjunct1]
        ne[THEN conjunct2, THEN conjunct2] inv]
  show "snd (verifyPayment env db req) = Inl (AppError ''Payment verification failed'' 400) \<and>
     orders (fst (verifyPayment env db req)) =
       map (\<lambda>r. if razorpayOrderId r = Some (razorpay_order_id req)
                 then r\<lparr>paymentStatus := FAILED\<rparr> else r) (orders db) \<and>
     (\<forall>r \<in> set (orders (fst (verifyPayment env db req))).
        razorpayOrderId r = Some (razorpay_order_id req) \<longrightarrow> paymentStatus r = FAILED) \<and>
     (\<forall>i < length (orders db).
        paymentStatus (orders (fst (verifyPayment env db req)) ! i) = PAID \<longrightarrow>
        paymentStatus (orders db ! i) = PAID) \<and>
     products (fst (verifyPayment env db req)) = products db \<and>
     variants (fst (verifyPayment env db req)) = variants db \<and>
     carts (fst (verifyPayment env db req)) = carts db \<and>
     cartItems (fst (verifyPayment env db req)) = cartItems db \<and>
     coupons (fst (verifyPayment env db req)) = coupons db"
    unfolding v
    by (auto simp: order_updateMany_orders order_updateMany_frame)
qed

theorem verifyPayment_signature_mismatch_witness:
  "vp_user (payment_callback ''00ff'') = Some ''user-1'' \<and>
   (razorpay_order_id (payment_callback ''00ff'') \<noteq> [] \<and>
    razorpay_payment_id (payment_callback ''00ff'') \<noteq> [] \<and>
    razorpay_signature (payment_callback ''00ff'') \<noteq> []) \<and>
   (case RAZORPAY_KEY_SECRET (shop_env 1793577660000 (Some 68900)) of
      None \<Rightarrow> True
    | Some secret \<Rightarrow>
        Buffer_from_hex (razorpay_signature (payment_callback ''00ff'')) \<noteq>
        Buffer_from_hex
          (createHmac_sha256_hex (shop_env 1793577660000 (Some 68900)) secret
             (razorpay_order_id (payment_callback ''00ff'') @ ''|'' @
              razorpay_payment_id (payment_callback ''00ff'')))) \<and>
   snd (verifyPayment (shop_env 1793577660000 (Some 68900)) pending_shop
          (payment_callback ''00ff'')) =
     Inl (AppError ''Payment verification failed'' 400) \<and>
   orders (fst (verifyPayment (shop_env 1793577660000 (Some 68900)) pending_shop
                  (payment_callback ''00ff''))) =
     [pending_order\<lparr>paymentStatus := FAILED\<rparr>]"
proof -
  have u: "vp_user (payment_callback ''00ff'') = Some ''user-1''"
    by code_simp
  have ne: "razorpay_order_id (payment_callback ''00ff'') \<noteq> [] \<and>
    razorpay_payment_id (payment_callback ''00ff'') \<noteq> [] \<and>
    razorpay_signature (payment_callback ''00ff'') \<noteq> []"
    by code_simp
  have bad: "case RAZORPAY_KEY_SECRET (shop_env 1793577660000 (Some 68900)) of
      None \<Rightarrow> True
    | Some secret \<Rightarrow>
        Buffer_from_hex (razorpay_signature (payment_callback ''00ff'')) \<noteq>
        Buffer_from_hex
          (createHmac_sha256_hex (shop_env 1793577660000 (Some 68900)) secret
             (razorpay_order_id (payment_callback ''00ff'') @ ''|'' @
              razorpay_payment_id (payment_callback ''00ff'')))"
    by code_simp
  note t = verifyPayment_signature_mismatch[rule_format, OF u ne bad, of pending_shop]
  have o: "map (\<lambda>r. if razorpayOrderId r = Some (razorpay_order_id (payment_callback ''00ff''))
                 then r\<lparr>paymentStatus := FAILED\<rparr> else r) (orders pending_shop) =
           [pending_order\<lparr>paymentStatus := FAILED\<rparr>]"
    by code_simp
  have 1: "snd (verifyPayment (shop_env 1793577660000 (Some 68900)) pending_shop
          (payment_callback ''00ff'')) =
     Inl (AppError ''Payment verification failed'' 400)"
    using t by (rule conjunct1)
  have 2: "orders (fst (verifyPayment (shop_env 1793577660000 (Some 68900)) pending_shop
                  (payment_callback ''00ff''))) =
     [pending_order\<lparr>paymentStatus := FAILED\<rparr>]"
    using t[THEN conjunct2, THEN conjunct1] o by (rule trans)
  show ?thesis
    by (rule conjI[OF u conjI[OF ne conjI[OF bad conjI[OF 1 2]]]])
qed

text \<open>
  The claim as stated, with the signature compared as a string, fails: the digest followed
  by two characters that are not hexadecimal digits differs from the digest, decodes to
  the same bytes, and is accepted, so that the pending order becomes PAID.
\<close>

theorem verifyPayment_accepts_padded_signature:
  "razorpay_signature (payment_callback (hmac_order_rzp1_pay_1 @ ''zz'')) \<noteq>
     createHmac_sha256_hex (shop_env 1793577660000 (Some 68900)) ''secret''
       (razorpay_order_id (payment_callback (hmac_order_rzp1_pay_1 @ ''zz'')) @ ''|'' @
        razorpay_payment_id (payment_callback (hmac_order_rzp1_pay_1 @ ''zz''))) \<and>
   paymentStatus pending_order = PAYMENT_PENDING \<and>
   snd (verifyPayment (shop_env 1793577660000 (Some 68900)) pending_shop
          (payment_callback (hmac_order_rzp1_pay_1 @ ''zz''))) =
     Inr (pending_order\<lparr>paymentStatus := PAID, orderStatus := CONFIRMED,
            razorpayPaymentId := Some ''pay_1'',
            razorpaySignature := Some (hmac_order_rzp1_pay_1 @ ''zz'')\<rparr>) \<and>
   map paymentStatus
     (orders (fst (verifyPayment (shop_env 1793577660000 (Some 68900)) pending_shop
                     (payment_callback (hmac_order_rzp1_pay_1 @ ''zz''))))) = [PAID]"
  by code_simp

section \<open>Stock and cart: COD at creation, RAZORPAY at verification\<close>



section \<open>Retrying createOrder with RAZORPAY\<close>

text \<open>
  Claim C7, as amended. Let createOrder be called twice with RAZORPAY by the same user on
  the same request, the second call not before the first and on the database the first
  call left. When the first call created the order and the second call comes within ten
  minutes of it, the second call returns that order, as stored with its remote order id,
  and changes nothing. When the first call itself returned an existing pending order, the
  second call returns the same order provided it comes within ten minutes of the creation
  time of that order: the window of the source runs from createdAt, not from the previous
  call.
\<close>

theorem createOrder_retry_returns_same_order:
  "req_paymentMethod req = RAZORPAY \<longrightarrow> now env1 \<le> now env2 \<longrightarrow>
     (createOrder env1 db req = (db1, Inr (Created r rzp)) \<longrightarrow>
      now env2 - now env1 \<le> 10 * 60 * 1000 \<longrightarrow>
        (\<exists>remote. rzp = Some remote \<and>
           createOrder env2 db1 req =
             (db1, Inr (ExistingPending (r\<lparr>razorpayOrderId := Some (rzp_id remote)\<rparr>))))) \<and>
     (createOrder env1 db req = (db1, Inr (ExistingPending r)) \<longrightarrow>
      now env2 - createdAt r \<le> 10 * 60 * 1000 \<longrightarrow>
        db1 = db \<and> createOrder env2 db1 req = (db1, Inr (ExistingPending r)))"
  using createOrder_again_created createOrder_again_existing by blast

theorem createOrder_retry_returns_same_order_witness:
  "req_paymentMethod (shop_request RAZORPAY None) = RAZORPAY \<and>
   now (shop_env 1793577600000 None) \<le> now (shop_env 1793577900000 None) \<and>
   now (shop_env 1793577900000 None) - now (shop_env 1793577600000 None) \<le> 10 * 60 * 1000 \<and>
   createOrder (shop_env 1793577600000 None) (shop 500) (shop_request RAZORPAY None) =
     (pending_shop,
      Inr (Created (pending_order\<lparr>razorpayOrderId := None\<rparr>)
             (Some \<lparr>rzp_id = ''order_rzp1'', rzp_amount = 68900, rzp_currency = ''INR'',
                     rzp_receipt = ''HLM-20261102-AB12''\<rparr>))) \<and>
   createOrder (shop_env 1793577900000 None) pending_shop (shop_request RAZORPAY None) =
     (pending_shop, Inr (ExistingPending pending_order)) \<and>
   now (shop_env 1793578140000 None) \<le> now (shop_env 1793578200000 None) \<and>
   now (shop_env 1793578200000 None) - createdAt pending_order \<le> 10 * 60 * 1000 \<and>
   createOrder (shop_env 1793578140000 None) pending_shop (shop_request RAZORPAY None) =
     (pending_shop, Inr (ExistingPending pending_order)) \<and>
   createOrder (shop_env 1793578200000 None) pending_shop (shop_request RAZORPAY None) =
     (pending_shop, Inr (ExistingPending pending_order))"
proof -
  have pm: "req_paymentMethod (shop_request RAZORPAY None) = RAZORPAY"
    by code_simp
  have le: "now (shop_env 1793577600000 None) \<le> now (shop_env 1793577900000 None)"
    by code_simp
  have win: "now (shop_env 1793577900000 None) - now (shop_env 1793577600000 None) \<le> 10 * 60 * 1000"
    by code_simp
  note run = pending_shop_reached
  from createOrder_retry_returns_same_order[rule_format, OF pm le, THEN conjunct1, rule_format,
      OF run win]
  obtain remote where
    1: "Some \<lparr>rzp_id = ''order_rzp1'', rzp_amount = 68900, rzp_currency = ''INR'',
              rzp_receipt = ''HLM-20261102-AB12''\<rparr> = Some remote"
    and 2: "createOrder (shop_env 1793577900000 None) pending_shop (shop_request RAZORPAY None) =
              (pending_shop,
               Inr (ExistingPending
                 (pending_order\<lparr>razorpayOrderId := None,
                                razorpayOrderId := Some (rzp_id remote)\<rparr>)))"
    by blast
  from 1 have "rzp_id remote = ''order_rzp1''" by auto
  then have "pending_order\<lparr>razorpayOrderId := None, razorpayOrderId := Some (rzp_id remote)\<rparr> =
               pending_order"
    by (simp add: pending_order_def)
  with 2 have 3: "createOrder (shop_env 1793577900000 None) pending_shop
                    (shop_request RAZORPAY None) =
                  (pending_shop, Inr (ExistingPending pending_order))"
    by simp
  have le2: "now (shop_env 1793578140000 None) \<le> now (shop_env 1793578200000 None)"
    by code_simp
  have win2: "now (shop_env 1793578200000 None) - createdAt pending_order \<le> 10 * 60 * 1000"
    by code_simp
  have run2: "createOrder (shop_env 1793578140000 None) pending_shop (shop_request RAZORPAY None) =
     (pending_shop, Inr (ExistingPending pending_order))"
    by code_simp
  have 4: "createOrder (shop_env 1793578200000 None) pending_shop (shop_request RAZORPAY None) =
     (pending_shop, Inr (ExistingPending pending_order))"
    using createOrder_retry_returns_same_order[rule_format, OF pm le2, THEN conjunct2, rule_format,
      OF run2 win2]
    by (rule conjunct2)
  show ?thesis
    by (rule conjI[OF pm conjI[OF le conjI[OF win conjI[OF run conjI[OF 3
          conjI[OF le2 conjI[OF win2 conjI[OF run2 4]]]]]]]])
qed

text \<open>
  The claim as stated fails when the first call returns an order that is already nine
  minutes old: the second call, two minutes after the first, finds the order older than
  ten minutes, cancels it and creates a second order.
\<close>

theorem createOrder_retry_after_window_creates_second_order:
  "req_paymentMethod (shop_request RAZORPAY None) = RAZORPAY \<and>
   createOrder (shop_env 1793578140000 None) pending_shop (shop_request RAZORPAY None) =
     (pending_shop, Inr (ExistingPending pending_order)) \<and>
   now (shop_env 1793578140000 None) \<le> now (second_env 1793578260000) \<and>
   now (second_env 1793578260000) - now (shop_env 1793578140000 None) \<le> 10 * 60 * 1000 \<and>
   createOrder (second_env 1793578260000) pending_shop (shop_request RAZORPAY None) =
     (pending_shop
        \<lparr>orders :=
           [pending_order\<lparr>orderStatus := CANCELLED, paymentStatus := FAILED\<rparr>,
            (newOrder (second_env 1793578260000) (shop_request RAZORPAY None) ''user-1''
               [helmet 500] 500 0)\<lparr>razorpayOrderId := Some ''order_rzp2''\<rparr>]\<rparr>,
      Inr (Created
             (newOrder (second_env 1793578260000) (shop_request RAZORPAY None) ''user-1''
                [helmet 500] 500 0)
             (Some \<lparr>rzp_id = ''order_rzp2'', rzp_amount = 68900, rzp_currency = ''INR'',
                     rzp_receipt = ''HLM-20261102-CD34''\<rparr>))) \<and>
   order_id (newOrder (second_env 1793578260000) (shop_request RAZORPAY None) ''user-1''
               [helmet 500] 500 0) \<noteq> order_id pending_order"
  by code_simp

section \<open>Coupon preview against checkout\<close>

text \<open>
  Claim C1 at a failing input. validateCoupon looks the code up after \<open>toUpperCase\<close>,
  createOrder looks it up as the client sent it. For the seed coupon WELCOME10, the code
  \<open>welcome10\<close> and a subtotal of 1000, the preview answers with a discount of 100, and
  createOrder creates the order with discount 0 and total 1180.
\<close>

theorem preview_and_checkout_disagree_on_lower_case_code:
  "validateCoupon (shop_env 1793577600000 None) (shop 1000)
     \<lparr>vc_couponCode = Some ''welcome10'', vc_subtotal = Some 1000\<rparr> =
     Inr \<lparr>preview_code = ''WELCOME10'', preview_description = ''10% off on your first order'',
          preview_discountType = PERCENTAGE, preview_discountValue = 10,
          preview_discount = 100, preview_minPurchase = 1000,
          preview_maxDiscount = Some 500\<rparr> \<and>
   snd (createOrder (shop_env 1793577600000 None) (shop 1000)
          (shop_request COD (Some ''welcome10''))) =
     Inr (Created (newOrder (shop_env 1793577600000 None)
                     (shop_request COD (Some ''welcome10'')) ''user-1'' [helmet 1000] 1000 0)
            None) \<and>
   subtotal (newOrder (shop_env 1793577600000 None)
               (shop_request COD (Some ''welcome10'')) ''user-1'' [helmet 1000] 1000 0) = 1000 \<and>
   discount (newOrder (shop_env 1793577600000 None)
               (shop_request COD (Some ''welcome10'')) ''user-1'' [helmet 1000] 1000 0) = 0 \<and>
   total (newOrder (shop_env 1793577600000 None)
            (shop_request COD (Some ''welcome10'')) ''user-1'' [helmet 1000] 1000 0) = 1180"
  by code_simp

section \<open>Coupon usage and the order transaction\<close>

text \<open>
  Claim C2 at a failing input. createOrder writes the increment of usedCount before the
  transaction starts. When the transaction then fails, here because the order number drawn
  is already taken, no order row is created and the increment stays.
\<close>

theorem coupon_used_although_order_not_created:
  "map usedCount (coupons ((shop 1000)\<lparr>orders := [pending_order]\<rparr>)) = [0] \<and>
   createOrder ((shop_env 1793581200000 None)\<lparr>generatedOrderId := ''order-2''\<rparr>)
       ((shop 1000)\<lparr>orders := [pending_order]\<rparr>) (shop_request COD (Some ''WELCOME10'')) =
     ((shop 1000)\<lparr>orders := [pending_order], coupons := [WELCOME10\<lparr>usedCount := 1\<rparr>]\<rparr>,
      Inl (PrismaError ''P2002''))"
  by code_simp

section \<open>Cancelling an order\<close>

text \<open>
  Claim C8 at a failing input. A RAZORPAY order that has not been paid has had no stock
  deducted. cancelOrder accepts it, its orderStatus being PENDING, and increments the
  stock of its items all the same: five helmets before the order, five after createOrder,
  six after cancelOrder.
\<close>

theorem cancelOrder_of_unpaid_gateway_order_adds_stock:
  "map product_stock (products (shop 500)) = [5] \<and>
   fst (createOrder (shop_env 1793577600000 None) (shop 500) (shop_request RAZORPAY None)) =
     pending_shop \<and>
   map product_stock (products pending_shop) = [5] \<and>
   orderStatus pending_order = PENDING \<and>
   snd (cancelOrder pending_shop (Some ''user-1'') ''order-1'') = Inr () \<and>
   orders (fst (cancelOrder pending_shop (Some ''user-1'') ''order-1'')) =
     [pending_order\<lparr>orderStatus := CANCELLED\<rparr>] \<and>
   map product_stock (products (fst (cancelOrder pending_shop (Some ''user-1'') ''order-1''))) =
     [6]"
  by code_simp

end
